theory Spec2Isabelle
  imports Complex_Main "HOL-Library.Sublist"
begin

section \<open>Python values\<close>

text \<open>
  The action plan is the result of \<^verbatim>\<open>json.loads\<close> on the recommender's reply, and a
  deployment descriptor is the decoded reply of the deployment API: both are untyped
  Python values. They are modelled by the datatype below. A dictionary is the list of
  its items in insertion order (its keys are distinct); \<^verbatim>\<open>k in d\<close>, \<^verbatim>\<open>d[k]\<close> and
  \<^verbatim>\<open>d.get(k)\<close> read it through \<open>map_of\<close>.
\<close>

text \<open>
  A Python float, as \<^verbatim>\<open>json.loads\<close> yields it for a number with a fraction or an
  exponent and for the literals \<^verbatim>\<open>NaN\<close>, \<^verbatim>\<open>Infinity\<close> and \<^verbatim>\<open>-Infinity\<close>. A finite
  float is the rational number it denotes, with which Python compares it exactly to an
  integer, together with the text \<^verbatim>\<open>str\<close> gives it, which the model does not compute
  from the value. Every comparison with NaN is false.
\<close>

datatype pyfloat = Finite rat string | PosInf | NegInf | NaN

fun float_str :: "pyfloat \<Rightarrow> string" where
  "float_str (Finite q s) = s"
| "float_str PosInf = ''inf''"
| "float_str NegInf = ''-inf''"
| "float_str NaN = ''nan''"

text \<open>\<^verbatim>\<open>x < k\<close>, \<^verbatim>\<open>x > k\<close> and \<^verbatim>\<open>x >= k\<close> for a float \<open>x\<close> and an integer \<open>k\<close>.\<close>

fun float_lt_int :: "pyfloat \<Rightarrow> int \<Rightarrow> bool" where
  "float_lt_int (Finite q s) k = (q < of_int k)"
| "float_lt_int PosInf k = False"
| "float_lt_int NegInf k = True"
| "float_lt_int NaN k = False"

fun float_gt_int :: "pyfloat \<Rightarrow> int \<Rightarrow> bool" where
  "float_gt_int (Finite q s) k = (q > of_int k)"
| "float_gt_int PosInf k = True"
| "float_gt_int NegInf k = False"
| "float_gt_int NaN k = False"

fun float_ge_int :: "pyfloat \<Rightarrow> int \<Rightarrow> bool" where
  "float_ge_int (Finite q s) k = (q \<ge> of_int k)"
| "float_ge_int PosInf k = True"
| "float_ge_int NegInf k = False"
| "float_ge_int NaN k = False"

datatype json =
    JNull
  | JBool bool
  | JInt int
  | JFloat pyfloat
  | JStr string
  | JList "json list"
  | JObj "(string \<times> json) list"

datatype py_error = TypeError | KeyError | AttributeError | OverflowError

type_synonym dict = "(string \<times> json) list"

text \<open>\<^verbatim>\<open>k in d\<close>\<close>

definition has_key :: "dict \<Rightarrow> string \<Rightarrow> bool" where
  "has_key d k = (map_of d k \<noteq> None)"

text \<open>\<^verbatim>\<open>d.get(k)\<close> and \<^verbatim>\<open>d.get(k, default)\<close>\<close>

definition dict_get :: "dict \<Rightarrow> string \<Rightarrow> json" where
  "dict_get d k = (case map_of d k of None \<Rightarrow> JNull | Some v \<Rightarrow> v)"

definition dict_get_default :: "dict \<Rightarrow> string \<Rightarrow> json \<Rightarrow> json" where
  "dict_get_default d k dflt = (case map_of d k of None \<Rightarrow> dflt | Some v \<Rightarrow> v)"

text \<open>
  What a \<^verbatim>\<open>for\<close> loop iterates over: the elements of a list, the keys of a
  dictionary, the characters of a string; the other values are not iterable.
\<close>

fun py_iter :: "json \<Rightarrow> py_error + json list" where
  "py_iter (JList xs) = Inr xs"
| "py_iter (JObj d) = Inr (map (\<lambda>kv. JStr (fst kv)) d)"
| "py_iter (JStr s) = Inr (map (\<lambda>c. JStr [c]) s)"
| "py_iter JNull = Inl TypeError"
| "py_iter (JBool b) = Inl TypeError"
| "py_iter (JInt n) = Inl TypeError"
| "py_iter (JFloat f) = Inl TypeError"

text \<open>Decimal rendering of integers, as \<^verbatim>\<open>str\<close> and f-strings produce it.\<close>

definition digit_char :: "nat \<Rightarrow> char" where
  "digit_char d = ''0123456789'' ! (d mod 10)"

function str_nat :: "nat \<Rightarrow> string" where
  "str_nat n = (if n < 10 then [digit_char n] else str_nat (n div 10) @ [digit_char (n mod 10)])"
  by pat_completeness auto
termination
  by (relation "measure id") auto

declare str_nat.simps [simp del]

definition str_int :: "int \<Rightarrow> string" where
  "str_int i = (if i < 0 then CHR ''-'' # str_nat (nat (- i)) else str_nat (nat i))"

text \<open>A text between single quotes, as the messages of the source write field names.\<close>

definition squote :: "string \<Rightarrow> string" where
  "squote s = CHR 0x27 # s @ [CHR 0x27]"

section \<open>Plan validator (policy.py, class ActionValidator)\<close>

definition VALID_ACTION_TYPES :: "string list" where
  "VALID_ACTION_TYPES = [''scale'', ''redeploy'', ''no_action'']"

text \<open>
  The body of the loop of \<^verbatim>\<open>validate_action_plan\<close> for the element \<open>action\<close> at
  index \<open>i\<close>: \<open>Inr (Some msg)\<close> is \<^verbatim>\<open>return False, msg\<close>, \<open>Inr None\<close> lets the loop
  go on, \<open>Inl e\<close> is an exception. The membership test
  \<^verbatim>\<open>action_type not in VALID_ACTION_TYPES\<close> hashes the value, which raises TypeError for
  a list or a dictionary. The message for an unknown type ends with the rendering of the
  set \<^verbatim>\<open>VALID_ACTION_TYPES\<close>, whose element order depends on the interpreter's string
  hashing: it is the parameter \<open>R\<close>.
\<close>

definition invalid_type_msg :: "string \<Rightarrow> string \<Rightarrow> string" where
  "invalid_type_msg R t = ''Invalid action type: '' @ squote t @ ''. Must be one of '' @ R"

definition validate_entry :: "string \<Rightarrow> nat \<Rightarrow> json \<Rightarrow> py_error + string option" where
  "validate_entry R i action =
     (case action of
        JObj d \<Rightarrow>
          (if \<not> has_key d ''type'' then
             Inr (Some (''Action '' @ str_nat i @ '' missing '' @ squote ''type'' @ '' field''))
           else
             (case dict_get d ''type'' of
                JList xs \<Rightarrow> Inl TypeError
              | JObj kv \<Rightarrow> Inl TypeError
              | JNull \<Rightarrow> Inr (Some (invalid_type_msg R ''None''))
              | JBool b \<Rightarrow> Inr (Some (invalid_type_msg R (if b then ''True'' else ''False'')))
              | JInt n \<Rightarrow> Inr (Some (invalid_type_msg R (str_int n)))
              | JFloat f \<Rightarrow> Inr (Some (invalid_type_msg R (float_str f)))
              | JStr t \<Rightarrow>
                  (if t \<notin> set VALID_ACTION_TYPES then Inr (Some (invalid_type_msg R t))
                   else if t = ''scale'' then
                     (if \<not> has_key d ''deployment_id'' then
                        Inr (Some (''Scale action '' @ str_nat i @ '' missing '' @ squote ''deployment_id''))
                      else if \<not> has_key d ''new_count'' then
                        Inr (Some (''Scale action '' @ str_nat i @ '' missing '' @ squote ''new_count''))
                      else Inr None)
                   else if t = ''redeploy'' then
                     (if \<not> has_key d ''deployment_id'' then
                        Inr (Some (''Redeploy action '' @ str_nat i @ '' missing '' @ squote ''deployment_id''))
                      else Inr None)
                   else Inr None)))
      | _ \<Rightarrow> Inr (Some (''Action '' @ str_nat i @ '' must be a dictionary'')))"

fun validate_entries :: "string \<Rightarrow> nat \<Rightarrow> json list \<Rightarrow> py_error + (bool \<times> string option)" where
  "validate_entries R i [] = Inr (True, None)"
| "validate_entries R i (action # rest) =
     (case validate_entry R i action of
        Inl e \<Rightarrow> Inl e
      | Inr (Some msg) \<Rightarrow> Inr (False, Some msg)
      | Inr None \<Rightarrow> validate_entries R (Suc i) rest)"

definition validate_action_plan :: "string \<Rightarrow> json \<Rightarrow> py_error + (bool \<times> string option)" where
  "validate_action_plan R action_plan =
     (case action_plan of
        JObj d \<Rightarrow>
          (if \<not> has_key d ''actions'' then
             Inr (False, Some (''Action plan must contain '' @ squote ''actions'' @ '' key''))
           else
             (case dict_get d ''actions'' of
                JList actions \<Rightarrow> validate_entries R 0 actions
              | _ \<Rightarrow> Inr (False, Some (squote ''actions'' @ '' must be a list''))))
      | _ \<Rightarrow> Inr (False, Some ''Action plan must be a dictionary''))"

text \<open>
  The body of the loop of \<^verbatim>\<open>sanitize_action_plan\<close>: \<open>Inr None\<close> is \<^verbatim>\<open>continue\<close>,
  \<open>Inr (Some a)\<close> appends \<open>a\<close>. Calling \<^verbatim>\<open>.get\<close> on a value that is not a dictionary
  raises AttributeError, and \<^verbatim>\<open>action["type"]\<close> raises KeyError when the key is absent.
\<close>

definition sanitize_entry :: "json \<Rightarrow> py_error + json option" where
  "sanitize_entry action =
     (case action of
        JObj d \<Rightarrow>
          (if dict_get d ''type'' = JStr ''no_action'' then Inr None
           else
             (case map_of d ''type'' of
                None \<Rightarrow> Inl KeyError
              | Some t \<Rightarrow>
                  Inr (Some (JObj
                    [(''type'', t),
                     (''deployment_id'', dict_get d ''deployment_id''),
                     (''details'', JObj
                        (if t = JStr ''scale'' then
                           [(''new_count'', dict_get d ''new_count''),
                            (''reason'', dict_get_default d ''reason'' (JStr ''LLM recommendation''))]
                         else if t = JStr ''redeploy'' then
                           [(''reason'', dict_get_default d ''reason'' (JStr ''LLM recommendation''))]
                         else []))]))))
      | _ \<Rightarrow> Inl AttributeError)"

fun sanitize_entries :: "json list \<Rightarrow> json list \<Rightarrow> py_error + json list" where
  "sanitize_entries sanitized [] = Inr sanitized"
| "sanitize_entries sanitized (action # rest) =
     (case sanitize_entry action of
        Inl e \<Rightarrow> Inl e
      | Inr None \<Rightarrow> sanitize_entries sanitized rest
      | Inr (Some a) \<Rightarrow> sanitize_entries (sanitized @ [a]) rest)"

definition sanitize_action_plan :: "json \<Rightarrow> py_error + json list" where
  "sanitize_action_plan action_plan =
     (case action_plan of
        JObj d \<Rightarrow>
          (case py_iter (dict_get_default d ''actions'' (JList [])) of
             Inl e \<Rightarrow> Inl e
           | Inr actions \<Rightarrow> sanitize_entries [] actions)
      | _ \<Rightarrow> Inl AttributeError)"

section \<open>Ledger store (db.py, class AutopilotDB)\<close>

text \<open>
  The three tables the guardrail reads and writes. A timestamp is the number of
  microseconds since the epoch: the source stores \<^verbatim>\<open>datetime.isoformat()\<close> texts and
  compares them as texts, which orders them as the instants they denote. The columns
  \<^verbatim>\<open>created_at\<close> and the row id of a cooldown are read by no query and are left out.
  The value of the \<^verbatim>\<open>details\<close> column stands for the JSON text \<^verbatim>\<open>json.dumps\<close> writes.
  A call reads the clock once: the parameter \<open>now\<close>.
\<close>

record ledger_row =
  al_id :: nat
  al_timestamp :: int
  al_action_type :: string
  al_deployment_id :: "string option"
  al_details :: "json option"
  al_status :: string
  al_error :: "string option"

record cooldown_row =
  cd_action_type :: string
  cd_deployment_id :: "string option"
  cd_expires_at :: int

record deployment_row =
  ds_name :: string
  ds_status :: string
  ds_replicas :: int
  ds_last_checked :: int
  ds_metrics :: "json option"
  ds_updated_at :: int

record db =
  action_ledger :: "ledger_row list"
  action_ledger_seq :: nat
  cooldowns :: "cooldown_row list"
  deployment_state :: "(string \<times> deployment_row) list"

definition empty_db :: db where
  "empty_db = \<lparr>action_ledger = [], action_ledger_seq = 0, cooldowns = [], deployment_state = []\<rparr>"

definition us_per_second :: int where
  "us_per_second = 1000000"

text \<open>Truth value of an \<^verbatim>\<open>Optional[str]\<close>: None and the empty string are false.\<close>

fun truthy_str :: "string option \<Rightarrow> bool" where
  "truthy_str None = False"
| "truthy_str (Some s) = (s \<noteq> [])"

text \<open>Truth value of an \<^verbatim>\<open>Optional[Dict]\<close>: None and the empty dictionary are false.\<close>

fun truthy_dict :: "dict option \<Rightarrow> bool" where
  "truthy_dict None = False"
| "truthy_dict (Some d) = (d \<noteq> [])"

text \<open>
  \<^verbatim>\<open>log_action\<close>: the row gets the next AUTOINCREMENT id, which is returned.
\<close>

definition log_action ::
  "int \<Rightarrow> db \<Rightarrow> string \<Rightarrow> string option \<Rightarrow> dict option \<Rightarrow> string \<Rightarrow> string option \<Rightarrow> db \<times> nat" where
  "log_action now d action_type deployment_id details status error =
     (let new_id = Suc (action_ledger_seq d);
          row = \<lparr>al_id = new_id, al_timestamp = now, al_action_type = action_type,
                 al_deployment_id = deployment_id,
                 al_details = (if truthy_dict details then map_option JObj details else None),
                 al_status = status, al_error = error\<rparr>
      in (d\<lparr>action_ledger := action_ledger d @ [row], action_ledger_seq := new_id\<rparr>, new_id))"

text \<open>\<^verbatim>\<open>UPDATE action_ledger SET status = ?, error = ? WHERE id = ?\<close>\<close>

definition update_action_status :: "db \<Rightarrow> nat \<Rightarrow> string \<Rightarrow> string option \<Rightarrow> db" where
  "update_action_status d action_id status error =
     d\<lparr>action_ledger :=
         map (\<lambda>r. if al_id r = action_id then r\<lparr>al_status := status, al_error := error\<rparr> else r)
           (action_ledger d)\<rparr>"

text \<open>\<^verbatim>\<open>SELECT * FROM action_ledger WHERE id = ?\<close>, to state properties of one record.\<close>

definition get_action :: "db \<Rightarrow> nat \<Rightarrow> ledger_row option" where
  "get_action d action_id = find (\<lambda>r. al_id r = action_id) (action_ledger d)"

definition count_actions_since :: "db \<Rightarrow> int \<Rightarrow> string option \<Rightarrow> nat" where
  "count_actions_since d since action_type =
     (if truthy_str action_type then
        length (filter (\<lambda>r. al_timestamp r \<ge> since \<and> Some (al_action_type r) = action_type)
                  (action_ledger d))
      else length (filter (\<lambda>r. al_timestamp r \<ge> since) (action_ledger d)))"

text \<open>
  The range of \<^verbatim>\<open>datetime\<close>, from 0001-01-01T00:00:00 to 9999-12-31T23:59:59.999999,
  in microseconds since the epoch, and the range of \<^verbatim>\<open>timedelta\<close>: a duration in
  seconds is normalised to whole days and a remainder, and the days must not exceed
  999999999 in magnitude.
\<close>

definition datetime_min_us :: int where
  "datetime_min_us = - 62135596800000000"

definition datetime_max_us :: int where
  "datetime_max_us = 253402300799999999"

definition datetime_ok :: "int \<Rightarrow> bool" where
  "datetime_ok t = (datetime_min_us \<le> t \<and> t \<le> datetime_max_us)"

definition timedelta_ok :: "int \<Rightarrow> bool" where
  "timedelta_ok seconds = (- 999999999 \<le> seconds div 86400 \<and> seconds div 86400 \<le> 999999999)"

text \<open>
  \<^verbatim>\<open>set_cooldown\<close>: \<^verbatim>\<open>datetime.utcnow() + timedelta(seconds=cooldown_seconds)\<close> raises
  OverflowError when the duration or the sum leaves those ranges, before any row is
  written. The clock reading \<open>now\<close> is a \<^verbatim>\<open>datetime\<close>, far from the ends of its range.
\<close>

definition set_cooldown ::
  "int \<Rightarrow> db \<Rightarrow> string \<Rightarrow> int \<Rightarrow> string option \<Rightarrow> py_error + db" where
  "set_cooldown now d action_type cooldown_seconds deployment_id =
     (if \<not> timedelta_ok cooldown_seconds then Inl OverflowError
      else
        (let expires_at = now + cooldown_seconds * us_per_second
         in if \<not> datetime_ok expires_at then Inl OverflowError
            else Inr (d\<lparr>cooldowns := cooldowns d @
                   [\<lparr>cd_action_type = action_type, cd_deployment_id = deployment_id,
                     cd_expires_at = expires_at\<rparr>]\<rparr>)))"

text \<open>
  \<^verbatim>\<open>check_cooldown\<close>: with a deployment id, the rows of that action type and that
  deployment id (in SQL, \<^verbatim>\<open>deployment_id = ?\<close> is never true of a NULL column); without
  one, the rows of that action type whatever their deployment id.
\<close>

definition check_cooldown :: "int \<Rightarrow> db \<Rightarrow> string \<Rightarrow> string option \<Rightarrow> bool" where
  "check_cooldown now d action_type deployment_id =
     (if truthy_str deployment_id then
        length (filter (\<lambda>c. cd_action_type c = action_type
                            \<and> cd_deployment_id c = deployment_id
                            \<and> cd_expires_at c > now) (cooldowns d)) > 0
      else
        length (filter (\<lambda>c. cd_action_type c = action_type
                            \<and> cd_expires_at c > now) (cooldowns d)) > 0)"

definition cleanup_expired_cooldowns :: "int \<Rightarrow> db \<Rightarrow> db" where
  "cleanup_expired_cooldowns now d =
     d\<lparr>cooldowns := filter (\<lambda>c. \<not> cd_expires_at c \<le> now) (cooldowns d)\<rparr>"

definition get_deployment_state :: "db \<Rightarrow> string \<Rightarrow> deployment_row option" where
  "get_deployment_state d deployment_id = map_of (deployment_state d) deployment_id"

section \<open>Guardrail engine (policy.py, class PolicyGuardrails)\<close>

record settings =
  max_actions_per_hour :: int
  max_actions_per_day :: int
  scale_cooldown_seconds :: int
  redeploy_cooldown_seconds :: int

text \<open>The defaults of config.py.\<close>

definition default_settings :: settings where
  "default_settings = \<lparr>max_actions_per_hour = 10, max_actions_per_day = 50,
     scale_cooldown_seconds = 3600, redeploy_cooldown_seconds = 7200\<rparr>"

definition hour_us :: int where
  "hour_us = 3600 * us_per_second"

definition day_us :: int where
  "day_us = 86400 * us_per_second"

definition check_rate_limits :: "settings \<Rightarrow> int \<Rightarrow> db \<Rightarrow> string \<Rightarrow> bool" where
  "check_rate_limits cfg now d action_type =
     (let one_hour_ago = now - hour_us;
          count_hour = count_actions_since d one_hour_ago (Some action_type)
      in if int count_hour \<ge> max_actions_per_hour cfg then False
         else
           (let one_day_ago = now - day_us;
                count_day = count_actions_since d one_day_ago (Some action_type)
            in if int count_day \<ge> max_actions_per_day cfg then False else True))"

text \<open>
  \<^verbatim>\<open>_validate_scale_action\<close>. The comparisons \<^verbatim>\<open>new_count < 0\<close> and
  \<^verbatim>\<open>new_count > 10\<close> are those of Python: on an integer and on a float they compare
  (with NaN both are false), on a boolean they compare 0 or 1 (neither below 0 nor
  above 10), and on a string, a list or a dictionary the first of them raises
  TypeError.
\<close>

definition validate_scale_action :: "dict option \<Rightarrow> py_error + (bool \<times> string option)" where
  "validate_scale_action details =
     (if \<not> truthy_dict details then Inr (False, Some ''Scale action requires details'')
      else
        (case dict_get (the details) ''new_count'' of
           JNull \<Rightarrow> Inr (False, Some ''Scale action requires new_count parameter'')
         | JInt n \<Rightarrow>
             (if n < 0 then Inr (False, Some ''Replica count cannot be negative'')
              else if n > 10 then
                Inr (False, Some (''Replica count too high: '' @ str_int n @ '' (max: 10)''))
              else Inr (True, None))
         | JFloat f \<Rightarrow>
             (if float_lt_int f 0 then Inr (False, Some ''Replica count cannot be negative'')
              else if float_gt_int f 10 then
                Inr (False, Some (''Replica count too high: '' @ float_str f @ '' (max: 10)''))
              else Inr (True, None))
         | JBool b \<Rightarrow> Inr (True, None)
         | JStr s \<Rightarrow> Inl TypeError
         | JList xs \<Rightarrow> Inl TypeError
         | JObj kv \<Rightarrow> Inl TypeError))"

text \<open>
  \<^verbatim>\<open>_validate_redeploy_action\<close>: a deployment the store does not track is logged
  and allowed.
\<close>

definition validate_redeploy_action :: "db \<Rightarrow> string option \<Rightarrow> bool \<times> string option" where
  "validate_redeploy_action d deployment_id =
     (if \<not> truthy_str deployment_id then (False, Some ''Redeploy action requires deployment_id'')
      else
        (case get_deployment_state d (the deployment_id) of
           None \<Rightarrow> (True, None)
         | Some deployment \<Rightarrow> (True, None)))"

definition validate_action ::
  "settings \<Rightarrow> int \<Rightarrow> db \<Rightarrow> string \<Rightarrow> string option \<Rightarrow> dict option
     \<Rightarrow> py_error + (bool \<times> string option)" where
  "validate_action cfg now d action_type deployment_id details =
     (if \<not> check_rate_limits cfg now d action_type then
        Inr (False, Some (''Rate limit exceeded for '' @ action_type))
      else if check_cooldown now d action_type deployment_id then
        Inr (False, Some (''Action '' @ action_type @ '' is in cooldown period''))
      else if action_type = ''scale'' then
        (case validate_scale_action details of
           Inl e \<Rightarrow> Inl e
         | Inr (is_valid, reason) \<Rightarrow> if \<not> is_valid then Inr (False, reason) else Inr (True, None))
      else if action_type = ''redeploy'' then
        (case validate_redeploy_action d deployment_id of
           (is_valid, reason) \<Rightarrow> if \<not> is_valid then Inr (False, reason) else Inr (True, None))
      else Inr (True, None))"

definition cooldown_seconds_for :: "settings \<Rightarrow> string \<Rightarrow> int" where
  "cooldown_seconds_for cfg action_type =
     (if action_type = ''scale'' then scale_cooldown_seconds cfg
      else if action_type = ''redeploy'' then redeploy_cooldown_seconds cfg
      else 3600)"

definition apply_cooldown ::
  "settings \<Rightarrow> int \<Rightarrow> db \<Rightarrow> string \<Rightarrow> string option \<Rightarrow> py_error + db" where
  "apply_cooldown cfg now d action_type deployment_id =
     set_cooldown now d action_type (cooldown_seconds_for cfg action_type) deployment_id"

section \<open>Decision loop (loop.py, class AutopilotAgent)\<close>

text \<open>
  The running total of \<^verbatim>\<open>_get_replica_count\<close> is an integer until a float is added,
  and a float from then on.
\<close>

datatype pynum = NInt int | NFloat pyfloat

text \<open>
  \<^verbatim>\<open>total_replicas += replicas\<close>. Integers (and booleans, which count 0 or 1) add
  exactly. As soon as an operand is a float the sum is Python's float addition, which
  rounds (and raises OverflowError on an integer too large for a float): it is the
  parameter \<open>float_add\<close>. Adding a value that is not a number raises TypeError.
\<close>

fun py_add ::
  "(pynum \<Rightarrow> pynum \<Rightarrow> py_error + pynum) \<Rightarrow> pynum \<Rightarrow> json \<Rightarrow> py_error + pynum" where
  "py_add float_add (NInt a) (JInt n) = Inr (NInt (a + n))"
| "py_add float_add (NInt a) (JBool b) = Inr (NInt (a + (if b then 1 else 0)))"
| "py_add float_add (NInt a) (JFloat f) = float_add (NInt a) (NFloat f)"
| "py_add float_add (NFloat x) (JInt n) = float_add (NFloat x) (NInt n)"
| "py_add float_add (NFloat x) (JBool b) = float_add (NFloat x) (NInt (if b then 1 else 0))"
| "py_add float_add (NFloat x) (JFloat f) = float_add (NFloat x) (NFloat f)"
| "py_add float_add total_replicas JNull = Inl TypeError"
| "py_add float_add total_replicas (JStr s) = Inl TypeError"
| "py_add float_add total_replicas (JList xs) = Inl TypeError"
| "py_add float_add total_replicas (JObj kv) = Inl TypeError"

text \<open>
  \<^verbatim>\<open>_get_replica_count\<close>. \<^verbatim>\<open>.get\<close> and \<^verbatim>\<open>.items\<close> on a value that is not a dictionary
  raise AttributeError.
\<close>

fun sum_replicas ::
  "(pynum \<Rightarrow> pynum \<Rightarrow> py_error + pynum) \<Rightarrow> pynum \<Rightarrow> (string \<times> json) list
     \<Rightarrow> py_error + pynum" where
  "sum_replicas float_add total_replicas [] = Inr total_replicas"
| "sum_replicas float_add total_replicas ((service_name, service_config) # rest) =
     (case service_config of
        JObj c \<Rightarrow>
          (case py_add float_add total_replicas (dict_get_default c ''replicas'' (JInt 1)) of
             Inl e \<Rightarrow> Inl e
           | Inr new_total \<Rightarrow> sum_replicas float_add new_total rest)
      | _ \<Rightarrow> Inl AttributeError)"

definition get_replica_count ::
  "(pynum \<Rightarrow> pynum \<Rightarrow> py_error + pynum) \<Rightarrow> json \<Rightarrow> py_error + pynum" where
  "get_replica_count float_add deployment =
     (case deployment of
        JObj d \<Rightarrow>
          (case dict_get_default d ''services'' (JObj []) of
             JObj services \<Rightarrow> sum_replicas float_add (NInt 0) services
           | _ \<Rightarrow> Inl AttributeError)
      | _ \<Rightarrow> Inl AttributeError)"

text \<open>
  What the deployment API answers to \<^verbatim>\<open>get_deployment\<close> inside \<^verbatim>\<open>_execute_scale\<close>
  and \<^verbatim>\<open>_execute_redeploy\<close>: a descriptor, nothing, or an exception with its message.
\<close>

datatype api_result = Found | NotFound | Raised string

text \<open>
  \<^verbatim>\<open>_execute_action\<close>, from the point where it has read \<^verbatim>\<open>type\<close>,
  \<^verbatim>\<open>deployment_id\<close> and \<^verbatim>\<open>details\<close> from the action: the ledger and the guardrail
  take them at their annotated types (a string, an optional string, a dictionary). An
  exception of \<^verbatim>\<open>validate_action\<close> or of \<^verbatim>\<open>apply_cooldown\<close> leaves the function
  with the store as it is then: \<open>Inl (e, store)\<close>.
\<close>

definition execute_action ::
  "settings \<Rightarrow> api_result \<Rightarrow> int \<Rightarrow> db \<Rightarrow> string \<Rightarrow> string option \<Rightarrow> dict
     \<Rightarrow> (py_error \<times> db) + db" where
  "execute_action cfg api now d action_type deployment_id details =
     (case log_action now d action_type deployment_id (Some details) ''pending'' None of
        (d1, action_id) \<Rightarrow>
          (case validate_action cfg now d1 action_type deployment_id (Some details) of
             Inl e \<Rightarrow> Inl (e, d1)
           | Inr (is_allowed, reason) \<Rightarrow>
               if \<not> is_allowed then Inr (update_action_status d1 action_id ''blocked'' reason)
               else
                 (let (success, error) =
                        (if action_type = ''scale'' \<or> action_type = ''redeploy'' then
                           (case api of
                              Found \<Rightarrow> (True, None)
                            | NotFound \<Rightarrow> (False, None)
                            | Raised msg \<Rightarrow> (False, Some msg))
                         else (False, Some (''Unknown action type: '' @ action_type)));
                      final_status = (if success then ''completed'' else ''failed'');
                      d2 = update_action_status d1 action_id final_status error
                  in if success then
                       (case apply_cooldown cfg now d2 action_type deployment_id of
                          Inl e \<Rightarrow> Inl (e, d2)
                        | Inr d3 \<Rightarrow> Inr d3)
                     else Inr d2)))"

section \<open>The specification's vocabulary\<close>

text \<open>
  The predicates and functions below follow the words of the specification; the
  theorems compare them with the functions translated from the source above.
\<close>

text \<open>
  A plan entry as the specification's validation rules describe it: a mapping whose
  \<^verbatim>\<open>type\<close> is one of scale, redeploy and no_action, a scale entry carrying
  \<^verbatim>\<open>deployment_id\<close> and \<^verbatim>\<open>new_count\<close>, a redeploy entry carrying \<^verbatim>\<open>deployment_id\<close>.
\<close>

definition entry_ok :: "json \<Rightarrow> bool" where
  "entry_ok action =
     (case action of
        JObj d \<Rightarrow>
          (case map_of d ''type'' of
             Some (JStr t) \<Rightarrow>
               (t = ''scale'' \<and> has_key d ''deployment_id'' \<and> has_key d ''new_count'')
               \<or> (t = ''redeploy'' \<and> has_key d ''deployment_id'')
               \<or> t = ''no_action''
           | _ \<Rightarrow> False)
      | _ \<Rightarrow> False)"

text \<open>A plan is a mapping with an \<^verbatim>\<open>actions\<close> list of such entries.\<close>

definition plan_ok :: "json \<Rightarrow> bool" where
  "plan_ok plan =
     (case plan of
        JObj d \<Rightarrow>
          (case map_of d ''actions'' of
             Some (JList actions) \<Rightarrow> list_all entry_ok actions
           | _ \<Rightarrow> False)
      | _ \<Rightarrow> False)"

text \<open>The entries of a plan document (none when it has no \<^verbatim>\<open>actions\<close> list).\<close>

definition plan_actions :: "json \<Rightarrow> json list" where
  "plan_actions plan =
     (case plan of
        JObj d \<Rightarrow> (case map_of d ''actions'' of Some (JList actions) \<Rightarrow> actions | _ \<Rightarrow> [])
      | _ \<Rightarrow> [])"

text \<open>
  The shape the specification gives a plan entry, \<^verbatim>\<open>{type, deployment_id?, new_count?, reason?}\<close>:
  a mapping with a \<^verbatim>\<open>type\<close> field.
\<close>

definition has_type :: "json \<Rightarrow> bool" where
  "has_type action = (case action of JObj d \<Rightarrow> has_key d ''type'' | _ \<Rightarrow> False)"

definition is_no_action :: "json \<Rightarrow> bool" where
  "is_no_action action =
     (case action of JObj d \<Rightarrow> map_of d ''type'' = Some (JStr ''no_action'') | _ \<Rightarrow> False)"

definition reason_or_default :: "dict \<Rightarrow> json" where
  "reason_or_default d =
     (case map_of d ''reason'' of None \<Rightarrow> JStr ''LLM recommendation'' | Some r \<Rightarrow> r)"

text \<open>
  The action the specification extracts from an entry: \<^verbatim>\<open>{type, deployment_id, details}\<close>
  with the details of a scale entry \<^verbatim>\<open>{new_count, reason}\<close> and those of a redeploy
  entry \<^verbatim>\<open>{reason}\<close>.
\<close>

definition expected_action :: "json \<Rightarrow> json" where
  "expected_action action =
     (case action of
        JObj d \<Rightarrow>
          JObj [(''type'', dict_get d ''type''),
                (''deployment_id'', dict_get d ''deployment_id''),
                (''details'',
                   if map_of d ''type'' = Some (JStr ''scale'') then
                     JObj [(''new_count'', dict_get d ''new_count''), (''reason'', reason_or_default d)]
                   else if map_of d ''type'' = Some (JStr ''redeploy'') then
                     JObj [(''reason'', reason_or_default d)]
                   else JObj [])]
      | _ \<Rightarrow> JNull)"

text \<open>
  A plan entry whose optional fields have the types the recommender is asked for: the
  deployment id a string (or null), the new count an integer (or null).
\<close>

definition typed_entry :: "json \<Rightarrow> bool" where
  "typed_entry action =
     (case action of
        JObj d \<Rightarrow>
          (case dict_get d ''deployment_id'' of JNull \<Rightarrow> True | JStr s \<Rightarrow> True | _ \<Rightarrow> False)
          \<and> (case dict_get d ''new_count'' of JNull \<Rightarrow> True | JInt n \<Rightarrow> True | _ \<Rightarrow> False)
      | _ \<Rightarrow> True)"

text \<open>An optional string as the Python value that carries it.\<close>

fun opt_str_json :: "string option \<Rightarrow> json" where
  "opt_str_json None = JNull"
| "opt_str_json (Some s) = JStr s"

text \<open>A cooldown row of action type \<open>t\<close> that has not expired at \<open>now\<close>.\<close>

definition active_for :: "int \<Rightarrow> string \<Rightarrow> cooldown_row \<Rightarrow> bool" where
  "active_for now t c = (cd_action_type c = t \<and> now < cd_expires_at c)"

text \<open>
  The details of a scale action whose \<^verbatim>\<open>new_count\<close>, when present, is an integer or
  null, and the integer it carries.
\<close>

definition new_count_typed :: "dict option \<Rightarrow> bool" where
  "new_count_typed details =
     (case details of
        None \<Rightarrow> True
      | Some d \<Rightarrow>
          (case map_of d ''new_count'' of
             None \<Rightarrow> True | Some JNull \<Rightarrow> True | Some (JInt n) \<Rightarrow> True | Some _ \<Rightarrow> False))"

definition new_count_of :: "dict option \<Rightarrow> int option" where
  "new_count_of details =
     (case details of
        None \<Rightarrow> None
      | Some d \<Rightarrow> (case map_of d ''new_count'' of Some (JInt n) \<Rightarrow> Some n | _ \<Rightarrow> None))"

text \<open>
  A service of a deployment descriptor, \<^verbatim>\<open>{replicas, image, resources?}\<close>, whose
  replica count is an integer or is not given, and the replicas it declares (1 when not
  given).
\<close>

definition declares_replicas :: "json \<Rightarrow> bool" where
  "declares_replicas service_config =
     (case service_config of
        JObj c \<Rightarrow> (case map_of c ''replicas'' of None \<Rightarrow> True | Some (JInt n) \<Rightarrow> True | Some _ \<Rightarrow> False)
      | _ \<Rightarrow> False)"

definition replicas_of :: "json \<Rightarrow> int" where
  "replicas_of service_config =
     (case service_config of
        JObj c \<Rightarrow> (case map_of c ''replicas'' of Some (JInt n) \<Rightarrow> n | _ \<Rightarrow> 1)
      | _ \<Rightarrow> 1)"

text \<open>
  A plan entry whose \<^verbatim>\<open>type\<close> is a list or a mapping: such a value cannot be hashed,
  and the membership test of the validator raises on it.
\<close>

definition unhashable_type :: "json \<Rightarrow> bool" where
  "unhashable_type action =
     (case action of
        JObj d \<Rightarrow>
          (case map_of d ''type'' of
             Some (JList xs) \<Rightarrow> True | Some (JObj kv) \<Rightarrow> True | _ \<Rightarrow> False)
      | _ \<Rightarrow> False)"

text \<open>The \<^verbatim>\<open>new_count\<close> the details give (null when they give none).\<close>

definition given_new_count :: "dict option \<Rightarrow> json" where
  "given_new_count details = (case details of None \<Rightarrow> JNull | Some d \<Rightarrow> dict_get d ''new_count'')"

text \<open>A value that is not a number: adding it to a number raises TypeError.\<close>

definition not_a_number :: "json \<Rightarrow> bool" where
  "not_a_number v =
     (case v of JNull \<Rightarrow> True | JStr s \<Rightarrow> True | JList xs \<Rightarrow> True | JObj kv \<Rightarrow> True
      | _ \<Rightarrow> False)"

section \<open>Plan validation\<close>

lemma validate_entry_ok: "(validate_entry R i a = Inr None) = entry_ok a"
  by (auto simp: validate_entry_def entry_ok_def has_key_def dict_get_def VALID_ACTION_TYPES_def
      split: json.splits option.splits)

lemma validate_entries_skip:
  "list_all entry_ok pre \<Longrightarrow>
     validate_entries R i (pre @ rest) = validate_entries R (i + length pre) rest"
proof (induction pre arbitrary: i)
  case Nil
  then show ?case by simp
next
  case (Cons a pre)
  then have "validate_entry R i a = Inr None" by (simp add: validate_entry_ok)
  with Cons show ?case by simp
qed

lemma validate_entries_accepts:
  "(validate_entries R i actions = Inr (True, e)) = (list_all entry_ok actions \<and> e = None)"
proof (induction actions arbitrary: i)
  case Nil
  then show ?case by auto
next
  case (Cons a actions)
  show ?case
  proof (cases "validate_entry R i a")
    case (Inl err)
    moreover from Inl have "\<not> entry_ok a" using validate_entry_ok[of R i a] by simp
    ultimately show ?thesis by simp
  next
    case (Inr r)
    show ?thesis
    proof (cases r)
      case None
      with Inr have "entry_ok a" using validate_entry_ok[of R i a] by simp
      with Inr None Cons.IH[of "Suc i"] show ?thesis by simp
    next
      case (Some msg)
      with Inr have "\<not> entry_ok a" using validate_entry_ok[of R i a] by simp
      with Inr Some show ?thesis by simp
    qed
  qed
qed

lemma validate_action_plan_accepts:
  "(validate_action_plan R plan = Inr (True, e)) = (plan_ok plan \<and> e = None)"
  by (auto simp: validate_action_plan_def plan_ok_def has_key_def dict_get_def validate_entries_accepts
      split: json.splits option.splits)

lemma validate_first_bad:
  assumes "plan = JObj d" "map_of d ''actions'' = Some (JList (pre @ a # post))"
    and "list_all entry_ok pre"
  shows "validate_action_plan R plan =
           (case validate_entry R (length pre) a of
              Inl e \<Rightarrow> Inl e
            | Inr (Some msg) \<Rightarrow> Inr (False, Some msg)
            | Inr None \<Rightarrow> validate_entries R (Suc (length pre)) post)"
  using assms validate_entries_skip[OF assms(3), of R 0 "a # post"]
  by (simp add: validate_action_plan_def has_key_def dict_get_def)

lemma plan_okD:
  "plan_ok plan \<Longrightarrow>
     \<exists>d actions. plan = JObj d \<and> map_of d ''actions'' = Some (JList actions)
        \<and> list_all entry_ok actions"
  by (cases plan) (auto simp: plan_ok_def split: option.splits json.splits)

lemma entry_okD:
  "entry_ok a \<Longrightarrow> \<exists>ad t. a = JObj ad \<and> map_of ad ''type'' = Some (JStr t)"
  by (cases a) (auto simp: entry_ok_def split: option.splits json.splits)

lemma entry_ok_has_type: "entry_ok a \<Longrightarrow> has_type a"
  by (auto simp: entry_ok_def has_type_def has_key_def split: json.splits option.splits)

lemma validate_entry_raises: "validate_entry R i a = Inl e \<Longrightarrow> unhashable_type a"
  by (auto simp: validate_entry_def unhashable_type_def has_key_def dict_get_def
      split: json.splits option.splits if_splits)

lemma validate_entry_rejects:
  assumes "\<not> entry_ok a" and "\<not> unhashable_type a"
  shows "\<exists>msg. validate_entry R i a = Inr (Some msg)"
proof (cases "validate_entry R i a")
  case (Inl e)
  with assms(2) show ?thesis using validate_entry_raises[of R i a e] by simp
next
  case (Inr r)
  show ?thesis
  proof (cases r)
    case None
    with Inr assms(1) show ?thesis using validate_entry_ok[of R i a] by simp
  next
    case (Some msg)
    with Inr show ?thesis by simp
  qed
qed

text \<open>
  C6, as the code has it. \<^verbatim>\<open>validate_action_plan\<close> is a function of the plan alone
  (and of the rendering \<open>R\<close> of the set of types, fixed for a run of the interpreter):
  the same plan gets the same verdict. It accepts a plan exactly when the plan is a
  mapping with an \<^verbatim>\<open>actions\<close> list whose every entry is a mapping with a type among
  scale, redeploy and no_action, a scale entry carrying \<^verbatim>\<open>deployment_id\<close> and
  \<^verbatim>\<open>new_count\<close>, a redeploy entry carrying \<^verbatim>\<open>deployment_id\<close>; a plan with a bad
  entry is never accepted. When the entries before the first bad entry are good and its
  type is not a list or a mapping, the plan is rejected with an error, that of the
  first check the entry fails: a type that is a string outside the set is named in the
  error; a scale entry without \<^verbatim>\<open>deployment_id\<close> gets an error naming
  \<^verbatim>\<open>deployment_id\<close>, whether it has \<^verbatim>\<open>new_count\<close> or not; a scale entry with
  \<^verbatim>\<open>deployment_id\<close> and without \<^verbatim>\<open>new_count\<close> gets an error naming \<^verbatim>\<open>new_count\<close>; a
  redeploy entry without \<^verbatim>\<open>deployment_id\<close> gets an error naming \<^verbatim>\<open>deployment_id\<close>;
  an entry without a type and an entry that is not a mapping get an error of their own.
  Each of these errors but that of the unknown type holds the index of the entry.
\<close>

theorem validation_first_error:
  assumes "plan = JObj d" "map_of d ''actions'' = Some (JList (pre @ a # post))"
    and "list_all entry_ok pre"
  shows "(\<forall>p e. (validate_action_plan R p = Inr (True, e)) = (plan_ok p \<and> e = None))
       \<and> (\<not> entry_ok a \<longrightarrow> (\<forall>e. validate_action_plan R plan \<noteq> Inr (True, e)))
       \<and> (\<not> entry_ok a \<and> \<not> unhashable_type a \<longrightarrow>
             (\<exists>msg. validate_entry R (length pre) a = Inr (Some msg)
                  \<and> validate_action_plan R plan = Inr (False, Some msg)))
       \<and> (\<forall>ad t. a = JObj ad \<and> map_of ad ''type'' = Some (JStr t) \<and> t \<notin> set VALID_ACTION_TYPES \<longrightarrow>
             validate_action_plan R plan =
               Inr (False, Some (''Invalid action type: '' @ squote t @ ''. Must be one of '' @ R)))
       \<and> (\<forall>ad. a = JObj ad \<and> map_of ad ''type'' = Some (JStr ''scale'')
             \<and> \<not> has_key ad ''deployment_id'' \<longrightarrow>
             validate_action_plan R plan =
               Inr (False, Some (''Scale action '' @ str_nat (length pre) @ '' missing '' @ squote ''deployment_id'')))
       \<and> (\<forall>ad. a = JObj ad \<and> map_of ad ''type'' = Some (JStr ''scale'')
             \<and> has_key ad ''deployment_id'' \<and> \<not> has_key ad ''new_count'' \<longrightarrow>
             validate_action_plan R plan =
               Inr (False, Some (''Scale action '' @ str_nat (length pre) @ '' missing '' @ squote ''new_count'')))
       \<and> (\<forall>ad. a = JObj ad \<and> map_of ad ''type'' = Some (JStr ''redeploy'')
             \<and> \<not> has_key ad ''deployment_id'' \<longrightarrow>
             validate_action_plan R plan =
               Inr (False, Some (''Redeploy action '' @ str_nat (length pre) @ '' missing '' @ squote ''deployment_id'')))
       \<and> (\<forall>ad. a = JObj ad \<and> \<not> has_key ad ''type'' \<longrightarrow>
             validate_action_plan R plan =
               Inr (False, Some (''Action '' @ str_nat (length pre) @ '' missing '' @ squote ''type'' @ '' field'')))
       \<and> ((\<forall>ad. a \<noteq> JObj ad) \<longrightarrow>
             validate_action_plan R plan =
               Inr (False, Some (''Action '' @ str_nat (length pre) @ '' must be a dictionary'')))"
proof (intro conjI allI impI)
  fix p e show "(validate_action_plan R p = Inr (True, e)) = (plan_ok p \<and> e = None)"
    by (rule validate_action_plan_accepts)
next
  fix e assume "\<not> entry_ok a"
  then have "\<not> plan_ok plan" using assms(1,2) by (simp add: plan_ok_def)
  then show "validate_action_plan R plan \<noteq> Inr (True, e)"
    by (simp add: validate_action_plan_accepts)
next
  assume "\<not> entry_ok a \<and> \<not> unhashable_type a"
  then obtain msg where "validate_entry R (length pre) a = Inr (Some msg)"
    using validate_entry_rejects[of a R "length pre"] by blast
  then have "validate_entry R (length pre) a = Inr (Some msg)
                  \<and> validate_action_plan R plan = Inr (False, Some msg)"
    using validate_first_bad[OF assms(1,2,3), of R] by simp
  then show "\<exists>msg. validate_entry R (length pre) a = Inr (Some msg)
                  \<and> validate_action_plan R plan = Inr (False, Some msg)" ..
next
  fix ad t
  assume "a = JObj ad \<and> map_of ad ''type'' = Some (JStr t) \<and> t \<notin> set VALID_ACTION_TYPES"
  then have "validate_entry R (length pre) a = Inr (Some (invalid_type_msg R t))"
    by (simp add: validate_entry_def has_key_def dict_get_def)
  then show "validate_action_plan R plan =
               Inr (False, Some (''Invalid action type: '' @ squote t @ ''. Must be one of '' @ R))"
    using validate_first_bad[OF assms(1,2,3), of R] by (simp add: invalid_type_msg_def)
next
  fix ad
  assume "a = JObj ad \<and> map_of ad ''type'' = Some (JStr ''scale'')
             \<and> \<not> has_key ad ''deployment_id''"
  then have "validate_entry R (length pre) a =
      Inr (Some (''Scale action '' @ str_nat (length pre) @ '' missing '' @ squote ''deployment_id''))"
    by (simp add: validate_entry_def has_key_def dict_get_def VALID_ACTION_TYPES_def)
  then show "validate_action_plan R plan =
               Inr (False, Some (''Scale action '' @ str_nat (length pre) @ '' missing '' @ squote ''deployment_id''))"
    using validate_first_bad[OF assms(1,2,3), of R] by simp
next
  fix ad
  assume "a = JObj ad \<and> map_of ad ''type'' = Some (JStr ''scale'')
             \<and> has_key ad ''deployment_id'' \<and> \<not> has_key ad ''new_count''"
  then have "validate_entry R (length pre) a =
      Inr (Some (''Scale action '' @ str_nat (length pre) @ '' missing '' @ squote ''new_count''))"
    by (simp add: validate_entry_def has_key_def dict_get_def VALID_ACTION_TYPES_def)
  then show "validate_action_plan R plan =
               Inr (False, Some (''Scale action '' @ str_nat (length pre) @ '' missing '' @ squote ''new_count''))"
    using validate_first_bad[OF assms(1,2,3), of R] by simp
next
  fix ad
  assume "a = JObj ad \<and> map_of ad ''type'' = Some (JStr ''redeploy'')
             \<and> \<not> has_key ad ''deployment_id''"
  then have "validate_entry R (length pre) a =
      Inr (Some (''Redeploy action '' @ str_nat (length pre) @ '' missing '' @ squote ''deployment_id''))"
    by (simp add: validate_entry_def has_key_def dict_get_def VALID_ACTION_TYPES_def)
  then show "validate_action_plan R plan =
               Inr (False, Some (''Redeploy action '' @ str_nat (length pre) @ '' missing '' @ squote ''deployment_id''))"
    using validate_first_bad[OF assms(1,2,3), of R] by simp
next
  fix ad
  assume "a = JObj ad \<and> \<not> has_key ad ''type''"
  then have "validate_entry R (length pre) a =
      Inr (Some (''Action '' @ str_nat (length pre) @ '' missing '' @ squote ''type'' @ '' field''))"
    by (simp add: validate_entry_def)
  then show "validate_action_plan R plan =
               Inr (False, Some (''Action '' @ str_nat (length pre) @ '' missing '' @ squote ''type'' @ '' field''))"
    using validate_first_bad[OF assms(1,2,3), of R] by simp
next
  assume "\<forall>ad. a \<noteq> JObj ad"
  then have "validate_entry R (length pre) a =
      Inr (Some (''Action '' @ str_nat (length pre) @ '' must be a dictionary''))"
    by (cases a) (simp_all add: validate_entry_def)
  then show "validate_action_plan R plan =
               Inr (False, Some (''Action '' @ str_nat (length pre) @ '' must be a dictionary''))"
    using validate_first_bad[OF assms(1,2,3), of R] by simp
qed

text \<open>
  The plan \<^verbatim>\<open>[{type: no_action}, {type: scale, deployment_id: d1}]\<close>: the second
  entry lacks \<^verbatim>\<open>new_count\<close> and the error names it.
\<close>

theorem validation_first_error_witness:
  "validate_action_plan ''{'scale', 'redeploy', 'no_action'}''
     (JObj [(''actions'', JList
        [JObj [(''type'', JStr ''no_action'')],
         JObj [(''type'', JStr ''scale''), (''deployment_id'', JStr ''d1'')]])])
   = Inr (False, Some (''Scale action 1 missing '' @ squote ''new_count''))"
proof -
  let ?ad = "[(''type'', JStr ''scale''), (''deployment_id'', JStr ''d1'')]"
  let ?a = "JObj ?ad"
  let ?pre = "[JObj [(''type'', JStr ''no_action'')]]"
  let ?d = "[(''actions'', JList (?pre @ ?a # []))]"
  have h2: "map_of ?d ''actions'' = Some (JList (?pre @ ?a # []))" by simp
  have h3: "list_all entry_ok ?pre" by (simp add: entry_ok_def)
  have one: "str_nat (length ?pre) = ''1''" by code_simp
  have pr: "?a = JObj ?ad \<and> map_of ?ad ''type'' = Some (JStr ''scale'')
        \<and> has_key ?ad ''deployment_id'' \<and> \<not> has_key ?ad ''new_count''"
    by (simp add: has_key_def)
  note w = validation_first_error[OF refl h2 h3, of "''{'scale', 'redeploy', 'no_action'}''"]
  from w[THEN conjunct2, THEN conjunct2, THEN conjunct2, THEN conjunct2, THEN conjunct2,
         THEN conjunct1, THEN spec, of ?ad] pr
  have "validate_action_plan ''{'scale', 'redeploy', 'no_action'}'' (JObj ?d) =
          Inr (False, Some (''Scale action '' @ str_nat (length ?pre) @ '' missing '' @ squote ''new_count''))"
    by blast
  then show ?thesis unfolding one by simp
qed

text \<open>
  C6 as stated fails: a scale entry that lacks \<^verbatim>\<open>new_count\<close> and \<^verbatim>\<open>deployment_id\<close>
  is rejected with an error that names \<^verbatim>\<open>deployment_id\<close>, the first check it fails, and
  not \<^verbatim>\<open>new_count\<close>.
\<close>

theorem scale_missing_both_names_deployment_id:
  "validate_action_plan ''{'scale', 'redeploy', 'no_action'}''
     (JObj [(''actions'', JList [JObj [(''type'', JStr ''scale'')]])])
   = Inr (False, Some (''Scale action 0 missing '' @ squote ''deployment_id''))
   \<and> \<not> sublist ''new_count'' (''Scale action 0 missing '' @ squote ''deployment_id'')"
  by code_simp

section \<open>Sanitization\<close>

lemma sanitize_entry_typed:
  "has_type a \<Longrightarrow>
     sanitize_entry a = Inr (if is_no_action a then None else Some (expected_action a))"
  by (auto simp: has_type_def is_no_action_def sanitize_entry_def expected_action_def
        reason_or_default_def has_key_def dict_get_def dict_get_default_def
      split: json.splits option.splits)

lemma sanitize_entries_typed:
  "list_all has_type actions \<Longrightarrow>
     sanitize_entries acc actions =
       Inr (acc @ map expected_action (filter (\<lambda>a. \<not> is_no_action a) actions))"
proof (induction actions arbitrary: acc)
  case Nil
  then show ?case by simp
next
  case (Cons a actions)
  then have a: "has_type a" and rest: "list_all has_type actions" by simp_all
  show ?case
    using sanitize_entry_typed[OF a] Cons.IH[OF rest] by simp
qed

lemma sanitize_accepted_plan:
  assumes "plan_ok plan"
  shows "sanitize_action_plan plan =
           Inr (map expected_action (filter (\<lambda>a. \<not> is_no_action a) (plan_actions plan)))"
proof -
  from plan_okD[OF assms] obtain d actions where p: "plan = JObj d"
    and a: "map_of d ''actions'' = Some (JList actions)" and ok: "list_all entry_ok actions"
    by blast
  from ok have "list_all has_type actions"
    by (auto simp: list_all_iff entry_ok_has_type)
  from sanitize_entries_typed[OF this, of "[]"] p a show ?thesis
    by (simp add: sanitize_action_plan_def plan_actions_def dict_get_default_def)
qed

text \<open>
  C7. For every plan of the shape the specification gives it (a mapping whose
  \<^verbatim>\<open>actions\<close>, when present, is a list of mappings that each have a \<^verbatim>\<open>type\<close>),
  \<^verbatim>\<open>sanitize_action_plan\<close> returns, in their original order, the entries whose type is
  not no_action, each mapped to \<^verbatim>\<open>{type, deployment_id, details}\<close> with the details of a
  scale entry \<^verbatim>\<open>{new_count, reason}\<close>, those of a redeploy entry \<^verbatim>\<open>{reason}\<close>, and
  the reason \<^verbatim>\<open>LLM recommendation\<close> when the entry gives none.
\<close>

theorem sanitize_drops_no_action_keeps_order:
  assumes "plan = JObj d"
    and "dict_get_default d ''actions'' (JList []) = JList actions"
    and "list_all has_type actions"
  shows "sanitize_action_plan plan =
           Inr (map expected_action (filter (\<lambda>a. \<not> is_no_action a) actions))"
  using assms(1,2) sanitize_entries_typed[OF assms(3), of "[]"]
  by (simp add: sanitize_action_plan_def)

text \<open>
  The plan \<^verbatim>\<open>[{type: no_action}, {type: scale, ...}, {type: redeploy, ...}]\<close> gives two
  actions, the scale action before the redeploy action.
\<close>

theorem sanitize_drops_no_action_keeps_order_witness:
  "sanitize_action_plan
     (JObj [(''actions'', JList
        [JObj [(''type'', JStr ''no_action'')],
         JObj [(''type'', JStr ''scale''), (''deployment_id'', JStr ''d1''), (''new_count'', JInt 3)],
         JObj [(''type'', JStr ''redeploy''), (''deployment_id'', JStr ''d2''),
               (''reason'', JStr ''restart'')]])])
   = Inr [JObj [(''type'', JStr ''scale''), (''deployment_id'', JStr ''d1''),
                (''details'', JObj [(''new_count'', JInt 3),
                                    (''reason'', JStr ''LLM recommendation'')])],
          JObj [(''type'', JStr ''redeploy''), (''deployment_id'', JStr ''d2''),
                (''details'', JObj [(''reason'', JStr ''restart'')])]]"
  using sanitize_drops_no_action_keeps_order
    [of "JObj [(''actions'', JList
        [JObj [(''type'', JStr ''no_action'')],
         JObj [(''type'', JStr ''scale''), (''deployment_id'', JStr ''d1''), (''new_count'', JInt 3)],
         JObj [(''type'', JStr ''redeploy''), (''deployment_id'', JStr ''d2''),
               (''reason'', JStr ''restart'')]])]"
        "[(''actions'', JList
        [JObj [(''type'', JStr ''no_action'')],
         JObj [(''type'', JStr ''scale''), (''deployment_id'', JStr ''d1''), (''new_count'', JInt 3)],
         JObj [(''type'', JStr ''redeploy''), (''deployment_id'', JStr ''d2''),
               (''reason'', JStr ''restart'')]])]"
        "[JObj [(''type'', JStr ''no_action'')],
         JObj [(''type'', JStr ''scale''), (''deployment_id'', JStr ''d1''), (''new_count'', JInt 3)],
         JObj [(''type'', JStr ''redeploy''), (''deployment_id'', JStr ''d2''),
               (''reason'', JStr ''restart'')]]"]
  by (simp add: dict_get_default_def dict_get_def has_type_def has_key_def is_no_action_def
        expected_action_def reason_or_default_def)

section \<open>Ledger store\<close>

lemma find_map_same_id:
  "(\<And>r. al_id (f r) = al_id r) \<Longrightarrow>
     find (\<lambda>r. al_id r = j) (map f rows) = map_option f (find (\<lambda>r. al_id r = j) rows)"
  by (induction rows) auto

lemma get_action_id: "get_action d j = Some r \<Longrightarrow> al_id r = j"
  by (auto simp: get_action_def find_Some_iff)

lemma get_action_update:
  "get_action (update_action_status d action_id status error) j =
     map_option (\<lambda>r. if al_id r = action_id then r\<lparr>al_status := status, al_error := error\<rparr> else r)
       (get_action d j)"
  unfolding get_action_def update_action_status_def
  using find_map_same_id
    [of "\<lambda>r. if al_id r = action_id then r\<lparr>al_status := status, al_error := error\<rparr> else r"
        j "action_ledger d"]
  by simp

text \<open>
  C10. \<^verbatim>\<open>update_action_status\<close> overwrites the status and the error of the record with
  the given id, whatever status the record has (a record that is already completed,
  failed or blocked is overwritten too), and leaves its id, timestamp, action type,
  deployment id and details as they are; the error it writes is the argument, so a call
  that omits it (the default, None) erases a stored message. The other records, the
  cooldowns and the deployment snapshots are untouched.
\<close>

theorem update_action_status_overwrites:
  assumes "get_action d action_id = Some r"
  shows "(\<exists>r'. get_action (update_action_status d action_id status error) action_id = Some r'
           \<and> al_status r' = status \<and> al_error r' = error
           \<and> al_id r' = al_id r \<and> al_timestamp r' = al_timestamp r
           \<and> al_action_type r' = al_action_type r
           \<and> al_deployment_id r' = al_deployment_id r
           \<and> al_details r' = al_details r)
       \<and> (\<forall>j. j \<noteq> action_id \<longrightarrow>
             get_action (update_action_status d action_id status error) j = get_action d j)
       \<and> cooldowns (update_action_status d action_id status error) = cooldowns d
       \<and> deployment_state (update_action_status d action_id status error) = deployment_state d"
proof (intro conjI allI impI)
  from assms have "al_id r = action_id" by (rule get_action_id)
  with assms show "\<exists>r'. get_action (update_action_status d action_id status error) action_id = Some r'
           \<and> al_status r' = status \<and> al_error r' = error
           \<and> al_id r' = al_id r \<and> al_timestamp r' = al_timestamp r
           \<and> al_action_type r' = al_action_type r
           \<and> al_deployment_id r' = al_deployment_id r
           \<and> al_details r' = al_details r"
    by (simp add: get_action_update)
next
  fix j assume j: "j \<noteq> action_id"
  show "get_action (update_action_status d action_id status error) j = get_action d j"
  proof (cases "get_action d j")
    case None
    then show ?thesis by (simp add: get_action_update)
  next
    case (Some x)
    with j get_action_id[OF Some] show ?thesis by (simp add: get_action_update)
  qed
qed (simp_all add: update_action_status_def)

text \<open>
  A record that already failed with a message is overwritten to completed, and the
  omitted error erases the message.
\<close>

theorem update_action_status_overwrites_witness:
  "get_action
     (update_action_status
        (fst (log_action 5 empty_db ''scale'' (Some ''d1'') None ''failed'' (Some ''boom'')))
        1 ''completed'' None) 1
   = Some \<lparr>al_id = 1, al_timestamp = 5, al_action_type = ''scale'', al_deployment_id = Some ''d1'',
           al_details = None, al_status = ''completed'', al_error = None\<rparr>"
proof -
  let ?d = "fst (log_action 5 empty_db ''scale'' (Some ''d1'') None ''failed'' (Some ''boom''))"
  let ?r = "\<lparr>al_id = 1, al_timestamp = 5, al_action_type = ''scale'', al_deployment_id = Some ''d1'',
           al_details = None, al_status = ''failed'', al_error = Some ''boom''\<rparr>"
  have h: "get_action ?d 1 = Some ?r"
    by (simp add: log_action_def empty_db_def get_action_def Let_def)
  from update_action_status_overwrites[OF h, of "''completed''" None]
  obtain r' where "get_action (update_action_status ?d 1 ''completed'' None) 1 = Some r'"
    and "al_status r' = ''completed''" and "al_error r' = None"
    and "al_id r' = al_id ?r" and "al_timestamp r' = al_timestamp ?r"
    and "al_action_type r' = al_action_type ?r"
    and "al_deployment_id r' = al_deployment_id ?r"
    and "al_details r' = al_details ?r"
    by blast
  then show ?thesis by (cases r') simp
qed

section \<open>Cooldowns\<close>

lemma check_cooldown_None:
  "check_cooldown now d t None = (\<exists>c \<in> set (cooldowns d). active_for now t c)"
  by (auto simp: check_cooldown_def active_for_def filter_empty_conv)

lemma check_cooldown_Some:
  "dep \<noteq> [] \<Longrightarrow> check_cooldown now d t (Some dep) =
     (\<exists>c \<in> set (cooldowns d). active_for now t c \<and> cd_deployment_id c = Some dep)"
  by (auto simp: check_cooldown_def active_for_def filter_empty_conv)

lemma check_cooldown_denies:
  "check_cooldown now d t dep \<Longrightarrow>
     \<exists>reason. validate_action cfg now d t dep details = Inr (False, Some reason)"
  by (simp add: validate_action_def)

text \<open>
  C3, as the code has it. The cooldown lookup is keyed. Called without a deployment id,
  \<^verbatim>\<open>check_cooldown\<close> is true exactly when the action type has an unexpired row, whatever
  deployment id the row carries. Called with a (non-empty) deployment id, it is true
  exactly when the action type has an unexpired row with that deployment id: a row
  whose deployment id is null does not count. Whenever \<^verbatim>\<open>check_cooldown\<close> is true,
  \<^verbatim>\<open>validate_action\<close> denies.
\<close>

theorem cooldown_keyed_lookup:
  "(check_cooldown now d t None = (\<exists>c \<in> set (cooldowns d). active_for now t c))
   \<and> (dep \<noteq> [] \<longrightarrow> check_cooldown now d t (Some dep) =
         (\<exists>c \<in> set (cooldowns d). active_for now t c \<and> cd_deployment_id c = Some dep))
   \<and> (check_cooldown now d t dep_opt \<longrightarrow>
         (\<exists>reason. validate_action cfg now d t dep_opt details = Inr (False, Some reason)))"
  using check_cooldown_None check_cooldown_Some check_cooldown_denies by blast

text \<open>
  A cooldown set at instant 0 for scale without a deployment id leaves the store with
  one row, whose deployment id is null; it puts the scale actions without a deployment
  id in cooldown, and they are denied.
\<close>

theorem cooldown_keyed_lookup_witness:
  "set_cooldown 0 empty_db ''scale'' 3600 None =
     Inr (empty_db\<lparr>cooldowns := [\<lparr>cd_action_type = ''scale'', cd_deployment_id = None,
                                   cd_expires_at = 3600000000\<rparr>]\<rparr>)
   \<and> check_cooldown 1
        (empty_db\<lparr>cooldowns := [\<lparr>cd_action_type = ''scale'', cd_deployment_id = None,
                                   cd_expires_at = 3600000000\<rparr>]\<rparr>) ''scale'' None
   \<and> (\<exists>reason. validate_action default_settings 1
          (empty_db\<lparr>cooldowns := [\<lparr>cd_action_type = ''scale'', cd_deployment_id = None,
                                     cd_expires_at = 3600000000\<rparr>]\<rparr>)
          ''scale'' None (Some [(''new_count'', JInt 2)]) = Inr (False, Some reason))"
proof -
  let ?S = "empty_db\<lparr>cooldowns := [\<lparr>cd_action_type = ''scale'', cd_deployment_id = None,
                                     cd_expires_at = 3600000000\<rparr>]\<rparr>"
  have s: "set_cooldown 0 empty_db ''scale'' 3600 None = Inr ?S"
    by code_simp
  have c: "check_cooldown 1 ?S ''scale'' None"
    by code_simp
  from c cooldown_keyed_lookup
    [of 1 ?S "''scale''" "''d1''" None default_settings "Some [(''new_count'', JInt 2)]"]
  have "\<exists>reason. validate_action default_settings 1 ?S
          ''scale'' None (Some [(''new_count'', JInt 2)]) = Inr (False, Some reason)"
    by blast
  with s c show ?thesis by (intro conjI)
qed

text \<open>
  C3 as stated fails: with an unexpired scale cooldown whose deployment id is null (the
  store that \<^verbatim>\<open>set_cooldown\<close> leaves when called at instant 0 for scale without a
  deployment id), \<^verbatim>\<open>check_cooldown\<close> for scale and the deployment \<^verbatim>\<open>d1\<close> is false, and
  the scale action on \<^verbatim>\<open>d1\<close> is allowed.
\<close>

theorem global_cooldown_not_seen_with_deployment_id:
  "set_cooldown 0 empty_db ''scale'' 3600 None =
     Inr (empty_db\<lparr>cooldowns := [\<lparr>cd_action_type = ''scale'', cd_deployment_id = None,
                                   cd_expires_at = 3600000000\<rparr>]\<rparr>)
   \<and> check_cooldown 1
        (empty_db\<lparr>cooldowns := [\<lparr>cd_action_type = ''scale'', cd_deployment_id = None,
                                   cd_expires_at = 3600000000\<rparr>]\<rparr>) ''scale'' (Some ''d1'') = False
   \<and> validate_action default_settings 1
        (empty_db\<lparr>cooldowns := [\<lparr>cd_action_type = ''scale'', cd_deployment_id = None,
                                   cd_expires_at = 3600000000\<rparr>]\<rparr>)
        ''scale'' (Some ''d1'') (Some [(''new_count'', JInt 2)]) = Inr (True, None)"
  by code_simp

lemma active_row_in_cooldown:
  assumes "c \<in> set (cooldowns d)" and "cd_action_type c = t" and "cd_deployment_id c = dep"
    and "now < cd_expires_at c"
  shows "check_cooldown now d t dep"
proof -
  have "filter (\<lambda>c. cd_action_type c = t \<and> cd_deployment_id c = dep \<and> now < cd_expires_at c)
          (cooldowns d) \<noteq> []"
    using assms by (auto simp: filter_empty_conv)
  moreover have "filter (\<lambda>c. cd_action_type c = t \<and> now < cd_expires_at c) (cooldowns d) \<noteq> []"
    using assms by (auto simp: filter_empty_conv)
  ultimately show ?thesis by (simp add: check_cooldown_def)
qed

lemma validate_action_frame:
  assumes "action_ledger d' = action_ledger d" and "deployment_state d' = deployment_state d"
    and "check_cooldown now d' t dep = check_cooldown now d t dep"
  shows "validate_action cfg now d' t dep details = validate_action cfg now d t dep details"
proof -
  have r: "check_rate_limits cfg now d' t = check_rate_limits cfg now d t"
    using assms(1) by (simp add: check_rate_limits_def count_actions_since_def)
  have v: "validate_redeploy_action d' dep = validate_redeploy_action d dep"
    using assms(2) by (simp add: validate_redeploy_action_def get_deployment_state_def)
  show ?thesis unfolding validate_action_def r v assms(3) ..
qed

lemma scale_reason_not_cooldown:
  "validate_scale_action details \<noteq> Inr (False, Some (''Action '' @ t @ '' is in cooldown period''))"
  by (simp add: validate_scale_action_def split: json.splits)

lemma redeploy_reason_not_cooldown:
  "validate_redeploy_action d dep \<noteq> (False, Some (''Action '' @ t @ '' is in cooldown period''))"
  by (simp add: validate_redeploy_action_def split: option.splits)

lemma not_cooldown_reason:
  assumes "\<not> check_cooldown now d t dep"
  shows "validate_action cfg now d t dep details
           \<noteq> Inr (False, Some (''Action '' @ t @ '' is in cooldown period''))"
proof (cases "check_rate_limits cfg now d t")
  case False
  then show ?thesis by (simp add: validate_action_def)
next
  case True
  show ?thesis
  proof (cases "t = ''scale''")
    case scale: True
    show ?thesis
    proof (cases "validate_scale_action details")
      case (Inl e)
      with True scale assms show ?thesis by (simp add: validate_action_def)
    next
      case (Inr r)
      obtain ok reason where r: "r = (ok, reason)" by (cases r)
      from Inr r scale_reason_not_cooldown[of details t]
      have "\<not> ok \<Longrightarrow> reason \<noteq> Some (''Action '' @ t @ '' is in cooldown period'')" by simp
      with True scale assms Inr r show ?thesis by (simp add: validate_action_def)
    qed
  next
    case other: False
    show ?thesis
    proof (cases "t = ''redeploy''")
      case False
      with True other assms show ?thesis by (simp add: validate_action_def)
    next
      case redeploy: True
      obtain ok reason where r: "validate_redeploy_action d dep = (ok, reason)"
        by (cases "validate_redeploy_action d dep")
      from r redeploy_reason_not_cooldown[of d dep t]
      have "\<not> ok \<Longrightarrow> reason \<noteq> Some (''Action '' @ t @ '' is in cooldown period'')" by simp
      with True other redeploy assms r show ?thesis by (simp add: validate_action_def)
    qed
  qed
qed

text \<open>
  C5, as the code has it. The duration of a type is \<^verbatim>\<open>scale_cooldown_seconds\<close> for scale,
  \<^verbatim>\<open>redeploy_cooldown_seconds\<close> for redeploy, 3600 seconds for any other type. When the
  duration is a representable \<^verbatim>\<open>timedelta\<close> and \<open>now\<close> plus the duration a representable
  \<^verbatim>\<open>datetime\<close> (years 1 to 9999), \<^verbatim>\<open>apply_cooldown\<close> appends one cooldown row for the
  action type and the deployment id, expiring at \<open>now\<close> plus the duration, and changes
  nothing else; otherwise it raises OverflowError and writes no row. In the store with
  the row: at every instant before the expiry \<^verbatim>\<open>validate_action\<close> for the same type and
  deployment id denies, there and in every later store that still holds the row (the
  housekeeping step removes no row before its expiry); at every instant from the expiry
  on, \<^verbatim>\<open>check_cooldown\<close> and \<^verbatim>\<open>validate_action\<close> answer what they answer in the store
  without the row, and when no other row of the type is unexpired, \<^verbatim>\<open>check_cooldown\<close>
  is false and \<^verbatim>\<open>validate_action\<close> does not deny with the cooldown reason.
\<close>

theorem cooldown_window:
  assumes "expires = now + cooldown_seconds_for cfg t * us_per_second"
    and "row = \<lparr>cd_action_type = t, cd_deployment_id = dep, cd_expires_at = expires\<rparr>"
    and "d' = d\<lparr>cooldowns := cooldowns d @ [row]\<rparr>"
  shows "(timedelta_ok (cooldown_seconds_for cfg t) \<and> datetime_ok expires \<longrightarrow>
            apply_cooldown cfg now d t dep = Inr d')
       \<and> (\<not> (timedelta_ok (cooldown_seconds_for cfg t) \<and> datetime_ok expires) \<longrightarrow>
            apply_cooldown cfg now d t dep = Inl OverflowError)
       \<and> cooldown_seconds_for cfg ''scale'' = scale_cooldown_seconds cfg
       \<and> cooldown_seconds_for cfg ''redeploy'' = redeploy_cooldown_seconds cfg
       \<and> (t \<noteq> ''scale'' \<and> t \<noteq> ''redeploy'' \<longrightarrow> cooldown_seconds_for cfg t = 3600)
       \<and> (\<forall>now' details. now' < expires \<longrightarrow>
            (\<exists>reason. validate_action cfg now' d' t dep details = Inr (False, Some reason)))
       \<and> (\<forall>now' d2 details. now' < expires \<and> row \<in> set (cooldowns d2) \<longrightarrow>
            (\<exists>reason. validate_action cfg now' d2 t dep details = Inr (False, Some reason)))
       \<and> (\<forall>now'. now' < expires \<longrightarrow> row \<in> set (cooldowns (cleanup_expired_cooldowns now' d')))
       \<and> (\<forall>now'. expires \<le> now' \<longrightarrow> check_cooldown now' d' t dep = check_cooldown now' d t dep)
       \<and> (\<forall>now' details. expires \<le> now' \<longrightarrow>
            validate_action cfg now' d' t dep details = validate_action cfg now' d t dep details)
       \<and> (\<forall>now' details. expires \<le> now' \<and> (\<forall>c \<in> set (cooldowns d). \<not> active_for now' t c) \<longrightarrow>
            check_cooldown now' d' t dep = False
            \<and> validate_action cfg now' d' t dep details
                \<noteq> Inr (False, Some (''Action '' @ t @ '' is in cooldown period'')))"
proof -
  have rows: "cooldowns d' = cooldowns d @ [row]"
    using assms(3) by simp
  have written: "apply_cooldown cfg now d t dep = Inr d'"
    if "timedelta_ok (cooldown_seconds_for cfg t) \<and> datetime_ok expires"
    using that assms by (simp add: apply_cooldown_def set_cooldown_def)
  have raised: "apply_cooldown cfg now d t dep = Inl OverflowError"
    if "\<not> (timedelta_ok (cooldown_seconds_for cfg t) \<and> datetime_ok expires)"
    using that assms(1) by (auto simp: apply_cooldown_def set_cooldown_def)
  have held: "check_cooldown now' d2 t dep" if "now' < expires" "row \<in> set (cooldowns d2)" for now' d2
    using that assms(2) active_row_in_cooldown[of row d2 t dep now'] by simp
  have before: "check_cooldown now' d' t dep" if "now' < expires" for now'
    using that rows held[of now' d'] by simp
  have kept: "row \<in> set (cooldowns (cleanup_expired_cooldowns now' d'))" if "now' < expires" for now'
    using that rows assms(2) by (simp add: cleanup_expired_cooldowns_def)
  have after: "check_cooldown now' d' t dep = check_cooldown now' d t dep" if "expires \<le> now'" for now'
    using that rows assms(2) by (simp add: check_cooldown_def)
  have same: "validate_action cfg now' d' t dep details = validate_action cfg now' d t dep details"
    if "expires \<le> now'" for now' details
    using validate_action_frame[of d' d now' t dep cfg details] after[OF that] assms(3) by simp
  have quiet: "check_cooldown now' d t dep = False"
    if "\<forall>c \<in> set (cooldowns d). \<not> active_for now' t c" for now'
    using that by (auto simp: check_cooldown_def active_for_def filter_empty_conv)
  have free: "check_cooldown now' d' t dep = False
            \<and> validate_action cfg now' d' t dep details
                \<noteq> Inr (False, Some (''Action '' @ t @ '' is in cooldown period''))"
    if "expires \<le> now' \<and> (\<forall>c \<in> set (cooldowns d). \<not> active_for now' t c)" for now' details
  proof -
    from that have n: "check_cooldown now' d' t dep = False"
      using after[of now'] quiet[of now'] by simp
    then have "\<not> check_cooldown now' d' t dep" by simp
    from n not_cooldown_reason[OF this, of cfg details] show ?thesis by simp
  qed
  have types: "cooldown_seconds_for cfg ''scale'' = scale_cooldown_seconds cfg
       \<and> cooldown_seconds_for cfg ''redeploy'' = redeploy_cooldown_seconds cfg
       \<and> (t \<noteq> ''scale'' \<and> t \<noteq> ''redeploy'' \<longrightarrow> cooldown_seconds_for cfg t = 3600)"
    by (simp add: cooldown_seconds_for_def)
  from before have c5: "\<forall>now' details. now' < expires \<longrightarrow>
            (\<exists>reason. validate_action cfg now' d' t dep details = Inr (False, Some reason))"
    using check_cooldown_denies by blast
  from held have c6: "\<forall>now' d2 details. now' < expires \<and> row \<in> set (cooldowns d2) \<longrightarrow>
            (\<exists>reason. validate_action cfg now' d2 t dep details = Inr (False, Some reason))"
    using check_cooldown_denies by blast
  from kept have c7: "\<forall>now'. now' < expires \<longrightarrow> row \<in> set (cooldowns (cleanup_expired_cooldowns now' d'))"
    by simp
  from after have c8: "\<forall>now'. expires \<le> now' \<longrightarrow> check_cooldown now' d' t dep = check_cooldown now' d t dep"
    by simp
  from same have c9: "\<forall>now' details. expires \<le> now' \<longrightarrow>
            validate_action cfg now' d' t dep details = validate_action cfg now' d t dep details"
    by simp
  from free have c10: "\<forall>now' details. expires \<le> now' \<and> (\<forall>c \<in> set (cooldowns d). \<not> active_for now' t c) \<longrightarrow>
            check_cooldown now' d' t dep = False
            \<and> validate_action cfg now' d' t dep details
                \<noteq> Inr (False, Some (''Action '' @ t @ '' is in cooldown period''))"
    by blast
  from written have c1: "timedelta_ok (cooldown_seconds_for cfg t) \<and> datetime_ok expires \<longrightarrow>
            apply_cooldown cfg now d t dep = Inr d'" by simp
  from raised have c2: "\<not> (timedelta_ok (cooldown_seconds_for cfg t) \<and> datetime_ok expires) \<longrightarrow>
            apply_cooldown cfg now d t dep = Inl OverflowError" by simp
  from types have t1: "cooldown_seconds_for cfg ''scale'' = scale_cooldown_seconds cfg"
    and t2: "cooldown_seconds_for cfg ''redeploy'' = redeploy_cooldown_seconds cfg"
    and t3: "t \<noteq> ''scale'' \<and> t \<noteq> ''redeploy'' \<longrightarrow> cooldown_seconds_for cfg t = 3600"
    by simp_all
  show ?thesis
    apply (rule conjI[OF c1])
    apply (rule conjI[OF c2])
    apply (rule conjI[OF t1])
    apply (rule conjI[OF t2])
    apply (rule conjI[OF t3])
    apply (rule conjI[OF c5])
    apply (rule conjI[OF c6])
    apply (rule conjI[OF c7])
    apply (rule conjI[OF c8])
    apply (rule conjI[OF c9])
    apply (rule c10)
    done
qed

text \<open>
  With the default settings, a scale cooldown applied at instant 0 to the empty store
  writes one row, which expires an hour later: one microsecond before, a scale action on
  the same deployment is denied; at the expiry the cooldown check is false and the
  action is allowed.
\<close>

theorem cooldown_window_witness:
  "apply_cooldown default_settings 0 empty_db ''scale'' (Some ''d1'')
     = Inr (empty_db\<lparr>cooldowns := [\<lparr>cd_action_type = ''scale'', cd_deployment_id = Some ''d1'',
                                     cd_expires_at = 3600000000\<rparr>]\<rparr>)
   \<and> (\<exists>reason. validate_action default_settings 3599999999
          (empty_db\<lparr>cooldowns := [\<lparr>cd_action_type = ''scale'', cd_deployment_id = Some ''d1'',
                                     cd_expires_at = 3600000000\<rparr>]\<rparr>)
          ''scale'' (Some ''d1'') (Some [(''new_count'', JInt 2)]) = Inr (False, Some reason))
   \<and> check_cooldown 3600000000
        (empty_db\<lparr>cooldowns := [\<lparr>cd_action_type = ''scale'', cd_deployment_id = Some ''d1'',
                                   cd_expires_at = 3600000000\<rparr>]\<rparr>) ''scale'' (Some ''d1'') = False
   \<and> validate_action default_settings 3600000000
        (empty_db\<lparr>cooldowns := [\<lparr>cd_action_type = ''scale'', cd_deployment_id = Some ''d1'',
                                   cd_expires_at = 3600000000\<rparr>]\<rparr>)
        ''scale'' (Some ''d1'') (Some [(''new_count'', JInt 2)]) = Inr (True, None)"
proof -
  let ?row = "\<lparr>cd_action_type = ''scale'', cd_deployment_id = Some ''d1'',
               cd_expires_at = 3600000000\<rparr>"
  let ?S = "empty_db\<lparr>cooldowns := [?row]\<rparr>"
  let ?details = "Some [(''new_count'', JInt 2)]"
  have e: "(3600000000::int) = 0 + cooldown_seconds_for default_settings ''scale'' * us_per_second"
    by (simp add: cooldown_seconds_for_def default_settings_def us_per_second_def)
  have s: "?S = empty_db\<lparr>cooldowns := cooldowns empty_db @ [?row]\<rparr>"
    by (simp add: empty_db_def)
  have ok: "timedelta_ok (cooldown_seconds_for default_settings ''scale'') \<and> datetime_ok 3600000000"
    by (simp add: cooldown_seconds_for_def default_settings_def timedelta_ok_def datetime_ok_def
        datetime_min_us_def datetime_max_us_def)
  have lt: "(3599999999::int) < 3600000000" and le: "(3600000000::int) \<le> 3600000000" by simp_all
  have none: "\<forall>c \<in> set (cooldowns empty_db). \<not> active_for 3600000000 ''scale'' c"
    by (simp add: empty_db_def)
  have base: "validate_action default_settings 3600000000 empty_db ''scale'' (Some ''d1'') ?details
                = Inr (True, None)"
    by code_simp
  note w = cooldown_window[of 3600000000 0 default_settings "''scale''" ?row "Some ''d1''" ?S empty_db,
      OF e refl s]
  from w[THEN conjunct1] ok
  have written: "apply_cooldown default_settings 0 empty_db ''scale'' (Some ''d1'') = Inr ?S"
    by simp
  from w[THEN conjunct2, THEN conjunct2, THEN conjunct2, THEN conjunct2, THEN conjunct2,
         THEN conjunct1, THEN spec, THEN spec, of 3599999999 ?details] lt
  have denied: "\<exists>reason. validate_action default_settings 3599999999 ?S
          ''scale'' (Some ''d1'') ?details = Inr (False, Some reason)"
    by simp
  from w[THEN conjunct2, THEN conjunct2, THEN conjunct2, THEN conjunct2, THEN conjunct2,
         THEN conjunct2, THEN conjunct2, THEN conjunct2, THEN conjunct2, THEN conjunct2,
         THEN spec, THEN spec, of 3600000000 ?details] le none
  have free: "check_cooldown 3600000000 ?S ''scale'' (Some ''d1'') = False"
    by blast
  from w[THEN conjunct2, THEN conjunct2, THEN conjunct2, THEN conjunct2, THEN conjunct2,
         THEN conjunct2, THEN conjunct2, THEN conjunct2, THEN conjunct2, THEN conjunct1,
         THEN spec, THEN spec, of 3600000000 ?details] le base
  have allowed: "validate_action default_settings 3600000000 ?S ''scale'' (Some ''d1'') ?details
                   = Inr (True, None)"
    by simp
  from written denied free allowed show ?thesis by (intro conjI)
qed

text \<open>
  C5 as stated fails: with \<^verbatim>\<open>scale_cooldown_seconds\<close> set to 1000000000000 (a duration that
  \<^verbatim>\<open>timedelta\<close> represents), the expiry of a scale cooldown applied at instant 0 falls
  after the year 9999; \<^verbatim>\<open>apply_cooldown\<close> raises OverflowError and writes no row.
\<close>

theorem cooldown_duration_overflow:
  "timedelta_ok (cooldown_seconds_for (default_settings\<lparr>scale_cooldown_seconds := 1000000000000\<rparr>) ''scale'')
   \<and> apply_cooldown (default_settings\<lparr>scale_cooldown_seconds := 1000000000000\<rparr>) 0 empty_db
        ''scale'' (Some ''d1'') = Inl OverflowError"
  by code_simp

section \<open>Rate limits\<close>

lemma not_check_rate_limits:
  "(\<not> check_rate_limits cfg now d t) =
     (int (count_actions_since d (now - hour_us) (Some t)) \<ge> max_actions_per_hour cfg
      \<or> int (count_actions_since d (now - day_us) (Some t)) \<ge> max_actions_per_day cfg)"
  by (auto simp: check_rate_limits_def Let_def)

text \<open>
  C4, as the code has it. Whenever the count of actions of the type in the trailing
  hour or in the trailing 24 hours has reached its ceiling, \<^verbatim>\<open>validate_action\<close> denies
  with the reason \<^verbatim>\<open>Rate limit exceeded for\<close> followed by the action type: the reason
  names the action type, and neither the window nor the count nor the ceiling (the
  source writes those to its log only).
\<close>

theorem rate_limit_reason:
  assumes "int (count_actions_since d (now - hour_us) (Some t)) \<ge> max_actions_per_hour cfg
      \<or> int (count_actions_since d (now - day_us) (Some t)) \<ge> max_actions_per_day cfg"
  shows "validate_action cfg now d t dep details = Inr (False, Some (''Rate limit exceeded for '' @ t))"
  using assms not_check_rate_limits[of cfg now d t] by (simp add: validate_action_def)

text \<open>One scale action in the ledger and an hourly ceiling of 1.\<close>

theorem rate_limit_reason_witness:
  "max_actions_per_hour (default_settings\<lparr>max_actions_per_hour := 1\<rparr>)
     \<le> int (count_actions_since
               (fst (log_action 0 empty_db ''scale'' (Some ''d1'') None ''completed'' None))
               (1 - hour_us) (Some ''scale''))
   \<and> validate_action (default_settings\<lparr>max_actions_per_hour := 1\<rparr>) 1
       (fst (log_action 0 empty_db ''scale'' (Some ''d1'') None ''completed'' None))
       ''scale'' (Some ''d1'') (Some [(''new_count'', JInt 2)])
     = Inr (False, Some ''Rate limit exceeded for scale'')"
proof -
  have h: "max_actions_per_hour (default_settings\<lparr>max_actions_per_hour := 1\<rparr>)
     \<le> int (count_actions_since
               (fst (log_action 0 empty_db ''scale'' (Some ''d1'') None ''completed'' None))
               (1 - hour_us) (Some ''scale''))"
    by code_simp
  from rate_limit_reason[OF disjI1[OF h], of "Some ''d1''" "Some [(''new_count'', JInt 2)]"] h
  show ?thesis by simp
qed

text \<open>
  C4 as stated fails: a denial by the hourly ceiling and a denial by the daily ceiling
  alone (the hourly count, 1, is below its ceiling of 10) return the same reason, which
  names no window and holds neither the count nor a ceiling.
\<close>

theorem rate_limit_reason_same_for_both_windows:
  "validate_action (default_settings\<lparr>max_actions_per_hour := 1\<rparr>) 1
     (fst (log_action 0 empty_db ''scale'' (Some ''d1'') None ''completed'' None))
     ''scale'' (Some ''d1'') (Some [(''new_count'', JInt 2)])
     = Inr (False, Some ''Rate limit exceeded for scale'')
   \<and> int (count_actions_since (fst (log_action 0 empty_db ''scale'' (Some ''d1'') None ''completed'' None))
        (1 - hour_us) (Some ''scale'')) < max_actions_per_hour (default_settings\<lparr>max_actions_per_day := 1\<rparr>)
   \<and> validate_action (default_settings\<lparr>max_actions_per_day := 1\<rparr>) 1
     (fst (log_action 0 empty_db ''scale'' (Some ''d1'') None ''completed'' None))
     ''scale'' (Some ''d1'') (Some [(''new_count'', JInt 2)])
     = Inr (False, Some ''Rate limit exceeded for scale'')"
  by code_simp

section \<open>Scale constraints\<close>

lemma scale_passes_guardrail:
  assumes "check_rate_limits cfg now d ''scale''" and "\<not> check_cooldown now d ''scale'' dep"
  shows "validate_action cfg now d ''scale'' dep details = validate_scale_action details"
  using assms
  by (auto simp: validate_action_def validate_scale_action_def split: sum.splits json.splits)

text \<open>
  C8, as the code has it. For a scale action that the rate limits and the cooldowns let
  through, the verdict of \<^verbatim>\<open>validate_action\<close> depends on the \<^verbatim>\<open>new_count\<close> the details
  give. When it is an integer or is not given, the action is allowed exactly when
  \<^verbatim>\<open>new_count\<close> is given, is not negative and is at most 10, a ceiling that the source
  fixes and no setting changes. Missing details, a missing count, a negative integer and
  an integer above 10 are each denied with a reason of their own, and the reasons of
  different failures differ. A count that is not an integer is compared as it is: a
  boolean is allowed; a float is denied when it is below 0 or above 10 and allowed
  otherwise, NaN included; on a string, a list or a mapping the comparison raises
  TypeError and no verdict is returned.
\<close>

theorem scale_constraint:
  assumes "check_rate_limits cfg now d ''scale''"
    and "\<not> check_cooldown now d ''scale'' dep"
  shows "(new_count_typed details \<longrightarrow>
           ((validate_action cfg now d ''scale'' dep details = Inr (True, None))
              = (\<exists>n. new_count_of details = Some n \<and> 0 \<le> n \<and> n \<le> 10)))
       \<and> (given_new_count details = JNull \<longrightarrow>
            validate_action cfg now d ''scale'' dep details =
              Inr (False, Some (if truthy_dict details then ''Scale action requires new_count parameter''
                                else ''Scale action requires details'')))
       \<and> (\<forall>n. given_new_count details = JInt n \<and> n < 0 \<longrightarrow>
            validate_action cfg now d ''scale'' dep details =
              Inr (False, Some ''Replica count cannot be negative''))
       \<and> (\<forall>n. given_new_count details = JInt n \<and> n > 10 \<longrightarrow>
            validate_action cfg now d ''scale'' dep details =
              Inr (False, Some (''Replica count too high: '' @ str_int n @ '' (max: 10)'')))
       \<and> (\<forall>n. ''Replica count too high: '' @ str_int n @ '' (max: 10)''
                 \<notin> {''Replica count cannot be negative'', ''Scale action requires new_count parameter'',
                     ''Scale action requires details''})
       \<and> ''Replica count cannot be negative''
            \<notin> {''Scale action requires new_count parameter'', ''Scale action requires details''}
       \<and> (\<forall>b. given_new_count details = JBool b \<longrightarrow>
            validate_action cfg now d ''scale'' dep details = Inr (True, None))
       \<and> (\<forall>f. given_new_count details = JFloat f \<longrightarrow>
            validate_action cfg now d ''scale'' dep details =
              (if float_lt_int f 0 then Inr (False, Some ''Replica count cannot be negative'')
               else if float_gt_int f 10 then
                 Inr (False, Some (''Replica count too high: '' @ float_str f @ '' (max: 10)''))
               else Inr (True, None)))
       \<and> (\<forall>s. given_new_count details = JStr s \<longrightarrow>
            validate_action cfg now d ''scale'' dep details = Inl TypeError)
       \<and> (\<forall>xs. given_new_count details = JList xs \<longrightarrow>
            validate_action cfg now d ''scale'' dep details = Inl TypeError)
       \<and> (\<forall>kv. given_new_count details = JObj kv \<longrightarrow>
            validate_action cfg now d ''scale'' dep details = Inl TypeError)"
proof -
  note v = scale_passes_guardrail[OF assms, of details]
  have falsy: "given_new_count details = JNull" if "\<not> truthy_dict details"
    using that by (cases details) (simp_all add: given_new_count_def dict_get_def)
  have given: "dict_get (the details) ''new_count'' = given_new_count details" if "truthy_dict details"
    using that by (cases details) (simp_all add: given_new_count_def)
  have c1: "new_count_typed details \<longrightarrow>
           ((validate_action cfg now d ''scale'' dep details = Inr (True, None))
              = (\<exists>n. new_count_of details = Some n \<and> 0 \<le> n \<and> n \<le> 10))"
  proof (cases details)
    case None
    then show ?thesis using v by (simp add: validate_scale_action_def new_count_of_def)
  next
    case (Some dd)
    show ?thesis
    proof (cases "dd = []")
      case True
      with Some show ?thesis using v by (simp add: validate_scale_action_def new_count_of_def)
    next
      case False
      with Some show ?thesis using v
        by (auto simp: validate_scale_action_def new_count_of_def new_count_typed_def dict_get_def
            split: option.splits json.splits)
    qed
  qed
  have c2: "given_new_count details = JNull \<longrightarrow>
            validate_action cfg now d ''scale'' dep details =
              Inr (False, Some (if truthy_dict details then ''Scale action requires new_count parameter''
                                else ''Scale action requires details''))"
    using v given by (simp add: validate_scale_action_def)
  have c3: "\<forall>n. given_new_count details = JInt n \<and> n < 0 \<longrightarrow>
            validate_action cfg now d ''scale'' dep details =
              Inr (False, Some ''Replica count cannot be negative'')"
    using v given falsy by (cases "truthy_dict details") (simp_all add: validate_scale_action_def)
  have c4: "\<forall>n. given_new_count details = JInt n \<and> n > 10 \<longrightarrow>
            validate_action cfg now d ''scale'' dep details =
              Inr (False, Some (''Replica count too high: '' @ str_int n @ '' (max: 10)''))"
    using v given falsy by (cases "truthy_dict details") (simp_all add: validate_scale_action_def)
  have c5: "\<forall>n. ''Replica count too high: '' @ str_int n @ '' (max: 10)''
                 \<notin> {''Replica count cannot be negative'', ''Scale action requires new_count parameter'',
                     ''Scale action requires details''}"
    by simp
  have c6: "''Replica count cannot be negative''
            \<notin> {''Scale action requires new_count parameter'', ''Scale action requires details''}"
    by simp
  have c7: "\<forall>b. given_new_count details = JBool b \<longrightarrow>
            validate_action cfg now d ''scale'' dep details = Inr (True, None)"
    using v given falsy by (cases "truthy_dict details") (simp_all add: validate_scale_action_def)
  have c8: "\<forall>f. given_new_count details = JFloat f \<longrightarrow>
            validate_action cfg now d ''scale'' dep details =
              (if float_lt_int f 0 then Inr (False, Some ''Replica count cannot be negative'')
               else if float_gt_int f 10 then
                 Inr (False, Some (''Replica count too high: '' @ float_str f @ '' (max: 10)''))
               else Inr (True, None))"
    using v given falsy by (cases "truthy_dict details") (simp_all add: validate_scale_action_def)
  have c9: "\<forall>s. given_new_count details = JStr s \<longrightarrow>
            validate_action cfg now d ''scale'' dep details = Inl TypeError"
    using v given falsy by (cases "truthy_dict details") (simp_all add: validate_scale_action_def)
  have c10: "\<forall>xs. given_new_count details = JList xs \<longrightarrow>
            validate_action cfg now d ''scale'' dep details = Inl TypeError"
    using v given falsy by (cases "truthy_dict details") (simp_all add: validate_scale_action_def)
  have c11: "\<forall>kv. given_new_count details = JObj kv \<longrightarrow>
            validate_action cfg now d ''scale'' dep details = Inl TypeError"
    using v given falsy by (cases "truthy_dict details") (simp_all add: validate_scale_action_def)
  show ?thesis
    apply (rule conjI[OF c1])
    apply (rule conjI[OF c2])
    apply (rule conjI[OF c3])
    apply (rule conjI[OF c4])
    apply (rule conjI[OF c5])
    apply (rule conjI[OF c6])
    apply (rule conjI[OF c7])
    apply (rule conjI[OF c8])
    apply (rule conjI[OF c9])
    apply (rule conjI[OF c10])
    apply (rule c11)
    done
qed

text \<open>
  With the default settings and an empty store, a scale to 3 replicas is allowed, a
  scale to 11 replicas is denied, and a scale to \<^verbatim>\<open>-0.5\<close> replicas is denied as negative.
\<close>

theorem scale_constraint_witness:
  "validate_action default_settings 0 empty_db ''scale'' (Some ''d1'')
     (Some [(''new_count'', JInt 3)]) = Inr (True, None)
   \<and> validate_action default_settings 0 empty_db ''scale'' (Some ''d1'')
     (Some [(''new_count'', JInt 11)]) = Inr (False, Some ''Replica count too high: 11 (max: 10)'')
   \<and> validate_action default_settings 0 empty_db ''scale'' (Some ''d1'')
     (Some [(''new_count'', JFloat (Finite (- 1 / 2) ''-0.5''))])
       = Inr (False, Some ''Replica count cannot be negative'')"
proof -
  have h1: "check_rate_limits default_settings 0 empty_db ''scale''" by code_simp
  have h2: "\<not> check_cooldown 0 empty_db ''scale'' (Some ''d1'')" by code_simp
  have t3: "new_count_typed (Some [(''new_count'', JInt 3)])" by (simp add: new_count_typed_def)
  have g11: "given_new_count (Some [(''new_count'', JInt 11)]) = JInt 11"
    by (simp add: given_new_count_def dict_get_def)
  have gf: "given_new_count (Some [(''new_count'', JFloat (Finite (- 1 / 2) ''-0.5''))])
              = JFloat (Finite (- 1 / 2) ''-0.5'')"
    by (simp add: given_new_count_def dict_get_def)
  have s: "str_int 11 = ''11''" by code_simp
  from scale_constraint[OF h1 h2, of "Some [(''new_count'', JInt 3)]", THEN conjunct1] t3
  have "(validate_action default_settings 0 empty_db ''scale'' (Some ''d1'')
            (Some [(''new_count'', JInt 3)]) = Inr (True, None))
        = (\<exists>n. new_count_of (Some [(''new_count'', JInt 3)]) = Some n \<and> 0 \<le> n \<and> n \<le> 10)"
    by simp
  then have a: "validate_action default_settings 0 empty_db ''scale'' (Some ''d1'')
     (Some [(''new_count'', JInt 3)]) = Inr (True, None)"
    by (simp add: new_count_of_def)
  from scale_constraint[OF h1 h2, of "Some [(''new_count'', JInt 11)]", THEN conjunct2,
        THEN conjunct2, THEN conjunct2, THEN conjunct1, THEN spec, of 11] g11
  have "validate_action default_settings 0 empty_db ''scale'' (Some ''d1'')
     (Some [(''new_count'', JInt 11)]) = Inr (False, Some (''Replica count too high: '' @ str_int 11 @ '' (max: 10)''))"
    by simp
  then have b: "validate_action default_settings 0 empty_db ''scale'' (Some ''d1'')
     (Some [(''new_count'', JInt 11)]) = Inr (False, Some ''Replica count too high: 11 (max: 10)'')"
    unfolding s by simp
  from scale_constraint[OF h1 h2, of "Some [(''new_count'', JFloat (Finite (- 1 / 2) ''-0.5''))]",
        THEN conjunct2, THEN conjunct2, THEN conjunct2, THEN conjunct2, THEN conjunct2,
        THEN conjunct2, THEN conjunct2, THEN conjunct1, THEN spec, of "Finite (- 1 / 2) ''-0.5''"] gf
  have c: "validate_action default_settings 0 empty_db ''scale'' (Some ''d1'')
     (Some [(''new_count'', JFloat (Finite (- 1 / 2) ''-0.5''))])
       = Inr (False, Some ''Replica count cannot be negative'')"
    by simp
  from a b c show ?thesis by (intro conjI)
qed

text \<open>
  C8 as stated fails. The plan validator asks only that \<^verbatim>\<open>new_count\<close> be there, and
  \<^verbatim>\<open>json.loads\<close> reads the literal \<^verbatim>\<open>NaN\<close>: a scale action whose \<^verbatim>\<open>new_count\<close> is NaN,
  which is not a non-negative number, is allowed; and one whose \<^verbatim>\<open>new_count\<close> is the
  string \<^verbatim>\<open>five\<close> gets no verdict, the comparison raises TypeError.
\<close>

theorem scale_nan_allowed_string_raises:
  "validate_action default_settings 0 empty_db ''scale'' (Some ''d1'')
     (Some [(''new_count'', JFloat NaN)]) = Inr (True, None)
   \<and> float_ge_int NaN 0 = False
   \<and> validate_action_plan ''{'scale', 'redeploy', 'no_action'}''
       (JObj [(''actions'', JList [JObj [(''type'', JStr ''scale''), (''deployment_id'', JStr ''d1''),
                                         (''new_count'', JFloat NaN)]])]) = Inr (True, None)
   \<and> validate_action default_settings 0 empty_db ''scale'' (Some ''d1'')
     (Some [(''new_count'', JStr ''five'')]) = Inl TypeError"
  by code_simp

section \<open>The guardrail on validated plans\<close>

lemma validate_scale_action_returns:
  assumes "new_count_typed details"
  shows "\<exists>verdict. validate_scale_action details = Inr verdict"
proof (cases "truthy_dict details")
  case False
  then show ?thesis by (auto simp add: validate_scale_action_def)
next
  case True
  then obtain dd where dd: "details = Some dd" by (cases details) simp_all
  show ?thesis
  proof (cases "map_of dd ''new_count''")
    case None
    with True dd show ?thesis by (auto simp add: validate_scale_action_def dict_get_def)
  next
    case (Some v)
    with assms dd have "v = JNull \<or> (\<exists>n. v = JInt n)"
      by (cases v) (simp_all add: new_count_typed_def)
    with True dd Some show ?thesis
      by (auto simp add: validate_scale_action_def dict_get_def)
  qed
qed

lemma validate_action_returns:
  assumes "t \<noteq> ''scale'' \<or> new_count_typed details"
  shows "\<exists>verdict. validate_action cfg now d t dep details = Inr verdict"
proof (cases "t = ''scale''")
  case True
  with assms have "new_count_typed details" by simp
  from validate_scale_action_returns[OF this] obtain verdict
    where "validate_scale_action details = Inr verdict" ..
  with True show ?thesis
    by (cases verdict) (auto simp add: validate_action_def)
next
  case False
  then show ?thesis
    by (cases "validate_redeploy_action d dep") (auto simp add: validate_action_def)
qed

lemma opt_str_json_ex:
  assumes "case v of JNull \<Rightarrow> True | JStr s \<Rightarrow> True | _ \<Rightarrow> False"
  shows "\<exists>dep. v = opt_str_json dep"
proof (cases v)
  case JNull
  then have "v = opt_str_json None" by simp
  then show ?thesis ..
next
  case (JStr s)
  then have "v = opt_str_json (Some s)" by simp
  then show ?thesis ..
qed (use assms in simp_all)

lemma expected_action_typed:
  assumes "entry_ok a" and "typed_entry a"
  shows "\<exists>t dep details.
           expected_action a = JObj [(''type'', JStr t), (''deployment_id'', opt_str_json dep),
                                     (''details'', JObj details)]
           \<and> (t \<noteq> ''scale'' \<or> new_count_typed (Some details))"
proof -
  from entry_okD[OF assms(1)] obtain ad t where a: "a = JObj ad"
    and t: "map_of ad ''type'' = Some (JStr t)"
    by blast
  from t have ty: "dict_get ad ''type'' = JStr t" by (simp add: dict_get_def)
  from assms(2) a have "case dict_get ad ''deployment_id'' of JNull \<Rightarrow> True | JStr s \<Rightarrow> True | _ \<Rightarrow> False"
    by (simp add: typed_entry_def)
  from opt_str_json_ex[OF this] obtain dep where
    dep: "dict_get ad ''deployment_id'' = opt_str_json dep" ..
  from assms(2) a have nc: "case dict_get ad ''new_count'' of JNull \<Rightarrow> True | JInt n \<Rightarrow> True | _ \<Rightarrow> False"
    by (simp add: typed_entry_def)
  have typed: "new_count_typed (Some [(''new_count'', dict_get ad ''new_count''), (''reason'', r)])" for r
    using nc by (cases "dict_get ad ''new_count''") (simp_all add: new_count_typed_def)
  show ?thesis
  proof (cases "t = ''scale''")
    case True
    have "expected_action a = JObj [(''type'', JStr t), (''deployment_id'', opt_str_json dep),
            (''details'', JObj [(''new_count'', dict_get ad ''new_count''),
                                (''reason'', reason_or_default ad)])]"
      using a t ty dep True by (simp add: expected_action_def)
    with typed show ?thesis by blast
  next
    case False
    have "\<exists>details. expected_action a = JObj [(''type'', JStr t), (''deployment_id'', opt_str_json dep),
            (''details'', JObj details)]"
      using a t ty dep False by (simp add: expected_action_def)
    with False show ?thesis by blast
  qed
qed

text \<open>
  C2, as the code has it. Plan validation checks that \<^verbatim>\<open>new_count\<close> and
  \<^verbatim>\<open>deployment_id\<close> are present, not what type they have. For every plan it accepts
  whose entries give \<^verbatim>\<open>new_count\<close> as an integer (or null, or not at all) and
  \<^verbatim>\<open>deployment_id\<close> as a string (or null, or not at all), sanitization returns a list
  of actions, each a mapping \<^verbatim>\<open>{type, deployment_id, details}\<close> with a string type,
  and \<^verbatim>\<open>validate_action\<close> on each of them returns a verdict and raises no exception, in
  every store, at every instant and under every setting.
\<close>

theorem guardrail_returns_on_typed_plans:
  assumes "validate_action_plan R plan = Inr (True, None)"
    and "list_all typed_entry (plan_actions plan)"
  shows "\<exists>actions. sanitize_action_plan plan = Inr actions
           \<and> (\<forall>a \<in> set actions. \<exists>t dep details.
                 a = JObj [(''type'', JStr t), (''deployment_id'', opt_str_json dep),
                           (''details'', JObj details)]
                 \<and> (\<forall>cfg now d. \<exists>verdict.
                       validate_action cfg now d t dep (Some details) = Inr verdict))"
proof -
  from assms(1) have ok: "plan_ok plan" by (simp add: validate_action_plan_accepts)
  from plan_okD[OF ok] have all_ok: "list_all entry_ok (plan_actions plan)"
    by (auto simp: plan_actions_def)
  let ?out = "map expected_action (filter (\<lambda>a. \<not> is_no_action a) (plan_actions plan))"
  have each: "\<exists>t dep details.
          b = JObj [(''type'', JStr t), (''deployment_id'', opt_str_json dep), (''details'', JObj details)]
          \<and> (\<forall>cfg now d. \<exists>verdict. validate_action cfg now d t dep (Some details) = Inr verdict)"
    if "b \<in> set ?out" for b
  proof -
    from that obtain a where mem: "a \<in> set (plan_actions plan)" and b: "b = expected_action a"
      by auto
    from mem all_ok have e: "entry_ok a" by (simp add: list_all_iff)
    from mem assms(2) have ty: "typed_entry a" by (simp add: list_all_iff)
    from expected_action_typed[OF e ty] obtain t dep details where
      eq: "expected_action a =
             JObj [(''type'', JStr t), (''deployment_id'', opt_str_json dep), (''details'', JObj details)]"
      and typed: "t \<noteq> ''scale'' \<or> new_count_typed (Some details)" by blast
    have ret: "\<forall>cfg now d. \<exists>verdict. validate_action cfg now d t dep (Some details) = Inr verdict"
      using validate_action_returns[OF typed] by simp
    from eq b have "b = JObj [(''type'', JStr t), (''deployment_id'', opt_str_json dep),
                     (''details'', JObj details)]" by simp
    with ret show ?thesis by (intro exI conjI)
  qed
  have "sanitize_action_plan plan = Inr ?out" by (rule sanitize_accepted_plan[OF ok])
  moreover have "\<forall>b \<in> set ?out. \<exists>t dep details.
          b = JObj [(''type'', JStr t), (''deployment_id'', opt_str_json dep), (''details'', JObj details)]
          \<and> (\<forall>cfg now d. \<exists>verdict. validate_action cfg now d t dep (Some details) = Inr verdict)"
    using each by (intro ballI)
  ultimately show ?thesis by (intro exI[of _ ?out] conjI)
qed

text \<open>
  The plan \<^verbatim>\<open>[{type: scale, deployment_id: d1, new_count: 3}]\<close> is accepted, its one
  action is sanitized, and the guardrail returns a verdict on it.
\<close>

theorem guardrail_returns_on_typed_plans_witness:
  "validate_action_plan ''{'scale', 'redeploy', 'no_action'}''
     (JObj [(''actions'', JList
        [JObj [(''type'', JStr ''scale''), (''deployment_id'', JStr ''d1''),
               (''new_count'', JInt 3)]])]) = Inr (True, None)
   \<and> (\<exists>verdict. validate_action default_settings 0 empty_db ''scale'' (Some ''d1'')
          (Some [(''new_count'', JInt 3), (''reason'', JStr ''LLM recommendation'')]) = Inr verdict)"
proof -
  let ?plan = "JObj [(''actions'', JList
        [JObj [(''type'', JStr ''scale''), (''deployment_id'', JStr ''d1''),
               (''new_count'', JInt 3)]])]"
  let ?a = "JObj [(''type'', JStr ''scale''), (''deployment_id'', JStr ''d1''),
                  (''details'', JObj [(''new_count'', JInt 3),
                                      (''reason'', JStr ''LLM recommendation'')])]"
  have h1: "validate_action_plan ''{'scale', 'redeploy', 'no_action'}'' ?plan = Inr (True, None)"
    by code_simp
  have h2: "list_all typed_entry (plan_actions ?plan)"
    by (simp add: plan_actions_def typed_entry_def dict_get_def)
  have s: "sanitize_action_plan ?plan = Inr [?a]" by code_simp
  from guardrail_returns_on_typed_plans[OF h1 h2] obtain actions where
    both: "sanitize_action_plan ?plan = Inr actions
      \<and> (\<forall>a \<in> set actions. \<exists>t dep details.
                 a = JObj [(''type'', JStr t), (''deployment_id'', opt_str_json dep),
                           (''details'', JObj details)]
                 \<and> (\<forall>cfg now d. \<exists>verdict.
                       validate_action cfg now d t dep (Some details) = Inr verdict))" ..
  note sa = both[THEN conjunct1] and each = both[THEN conjunct2]
  from sa s have "actions = [?a]" by simp
  then have mem: "?a \<in> set actions" by simp
  from bspec[OF each mem] obtain t where
    "\<exists>dep details. ?a = JObj [(''type'', JStr t), (''deployment_id'', opt_str_json dep),
                           (''details'', JObj details)]
        \<and> (\<forall>cfg now d. \<exists>verdict. validate_action cfg now d t dep (Some details) = Inr verdict)" ..
  then obtain dep where
    "\<exists>details. ?a = JObj [(''type'', JStr t), (''deployment_id'', opt_str_json dep),
                           (''details'', JObj details)]
        \<and> (\<forall>cfg now d. \<exists>verdict. validate_action cfg now d t dep (Some details) = Inr verdict)" ..
  then obtain details where
    found: "?a = JObj [(''type'', JStr t), (''deployment_id'', opt_str_json dep),
                           (''details'', JObj details)]
        \<and> (\<forall>cfg now d. \<exists>verdict. validate_action cfg now d t dep (Some details) = Inr verdict)" ..
  note eq = found[THEN conjunct1] and ret = found[THEN conjunct2]
  from eq have t: "t = ''scale''" and d: "opt_str_json dep = JStr ''d1''"
    and det: "details = [(''new_count'', JInt 3), (''reason'', JStr ''LLM recommendation'')]"
    by simp_all
  from d have "dep = Some ''d1''" by (cases dep) simp_all
  with ret[THEN spec, THEN spec, THEN spec, of default_settings 0 empty_db] t det
  have "\<exists>verdict. validate_action default_settings 0 empty_db ''scale'' (Some ''d1'')
          (Some [(''new_count'', JInt 3), (''reason'', JStr ''LLM recommendation'')]) = Inr verdict"
    by simp
  with h1 show ?thesis by (intro conjI)
qed

text \<open>
  C2 as stated fails: the plan \<^verbatim>\<open>[{type: scale, deployment_id: d1, new_count: "five"}]\<close>
  is accepted by validation, sanitization hands the string on, and \<^verbatim>\<open>validate_action\<close>
  raises TypeError on comparing it with 0.
\<close>

theorem non_integer_new_count_reaches_guardrail:
  "validate_action_plan ''{'scale', 'redeploy', 'no_action'}''
     (JObj [(''actions'', JList
        [JObj [(''type'', JStr ''scale''), (''deployment_id'', JStr ''d1''),
               (''new_count'', JStr ''five'')]])]) = Inr (True, None)
   \<and> sanitize_action_plan
     (JObj [(''actions'', JList
        [JObj [(''type'', JStr ''scale''), (''deployment_id'', JStr ''d1''),
               (''new_count'', JStr ''five'')]])])
     = Inr [JObj [(''type'', JStr ''scale''), (''deployment_id'', JStr ''d1''),
                  (''details'', JObj [(''new_count'', JStr ''five''),
                                      (''reason'', JStr ''LLM recommendation'')])]]
   \<and> validate_action default_settings 0 empty_db ''scale'' (Some ''d1'')
        (Some [(''new_count'', JStr ''five''), (''reason'', JStr ''LLM recommendation'')])
     = Inl TypeError"
  by code_simp

section \<open>The decision loop\<close>

lemma py_add_typed:
  assumes "declares_replicas (JObj c)"
  shows "py_add float_add (NInt acc) (dict_get_default c ''replicas'' (JInt 1))
           = Inr (NInt (acc + replicas_of (JObj c)))"
proof (cases "map_of c ''replicas''")
  case None
  then show ?thesis by (simp add: dict_get_default_def replicas_of_def)
next
  case (Some v)
  with assms obtain n where "v = JInt n" by (auto simp: declares_replicas_def split: json.splits)
  with Some show ?thesis by (simp add: dict_get_default_def replicas_of_def)
qed

lemma sum_replicas_typed:
  "list_all (\<lambda>s. declares_replicas (snd s)) pre \<Longrightarrow>
     sum_replicas float_add (NInt acc) (pre @ rest)
       = sum_replicas float_add (NInt (acc + sum_list (map (\<lambda>s. replicas_of (snd s)) pre))) rest"
proof (induction pre arbitrary: acc)
  case Nil
  then show ?case by simp
next
  case (Cons s pre)
  obtain name cfg where s: "s = (name, cfg)" by (cases s)
  from Cons.prems have t: "declares_replicas cfg"
    and rest: "list_all (\<lambda>s. declares_replicas (snd s)) pre"
    by (simp_all add: s)
  from t obtain c where c: "cfg = JObj c" by (auto simp: declares_replicas_def split: json.splits)
  from t c have "py_add float_add (NInt acc) (dict_get_default c ''replicas'' (JInt 1))
           = Inr (NInt (acc + replicas_of (JObj c)))"
    using py_add_typed[of c float_add acc] by simp
  then show ?case using Cons.IH[OF rest, of "acc + replicas_of (JObj c)"]
    by (simp add: s c add.assoc)
qed

lemma py_add_not_a_number:
  "not_a_number v \<Longrightarrow> py_add float_add acc v = Inl TypeError"
  by (cases v) (simp_all add: not_a_number_def)

text \<open>
  C9, as the code has it. Nothing checks a fetched descriptor before
  \<^verbatim>\<open>_get_replica_count\<close> reads it. When its \<^verbatim>\<open>services\<close> (an empty mapping when the
  descriptor has none) is a mapping whose every service is a mapping with an integer
  \<^verbatim>\<open>replicas\<close> or none, the function returns the sum over the services of their
  replicas, a service without \<^verbatim>\<open>replicas\<close> counting for 1. Otherwise, at the first
  service that is not of that kind: when the service is a mapping whose \<^verbatim>\<open>replicas\<close> is
  null, a string, a list or a mapping, the function raises TypeError; when the service
  is not a mapping, it raises AttributeError. When \<^verbatim>\<open>services\<close> itself is not a mapping
  (null, for one), it raises AttributeError.
\<close>

theorem replica_count_is_sum:
  assumes "deployment = JObj d"
  shows "(\<forall>services. dict_get_default d ''services'' (JObj []) = JObj services
             \<and> list_all (\<lambda>s. declares_replicas (snd s)) services \<longrightarrow>
           get_replica_count float_add deployment
             = Inr (NInt (sum_list (map (\<lambda>s. replicas_of (snd s)) services))))
       \<and> (\<forall>pre name c post. dict_get_default d ''services'' (JObj []) = JObj (pre @ (name, JObj c) # post)
             \<and> list_all (\<lambda>s. declares_replicas (snd s)) pre
             \<and> not_a_number (dict_get_default c ''replicas'' (JInt 1)) \<longrightarrow>
           get_replica_count float_add deployment = Inl TypeError)
       \<and> (\<forall>pre name v post. dict_get_default d ''services'' (JObj []) = JObj (pre @ (name, v) # post)
             \<and> list_all (\<lambda>s. declares_replicas (snd s)) pre
             \<and> (\<forall>c. v \<noteq> JObj c) \<longrightarrow>
           get_replica_count float_add deployment = Inl AttributeError)
       \<and> ((\<forall>services. dict_get_default d ''services'' (JObj []) \<noteq> JObj services) \<longrightarrow>
           get_replica_count float_add deployment = Inl AttributeError)"
proof (intro conjI allI impI)
  fix services
  assume a: "dict_get_default d ''services'' (JObj []) = JObj services
             \<and> list_all (\<lambda>s. declares_replicas (snd s)) services"
  then have "sum_replicas float_add (NInt 0) (services @ [])
      = sum_replicas float_add (NInt (0 + sum_list (map (\<lambda>s. replicas_of (snd s)) services))) []"
    using sum_replicas_typed[of services float_add 0 "[]"] by blast
  then show "get_replica_count float_add deployment
             = Inr (NInt (sum_list (map (\<lambda>s. replicas_of (snd s)) services)))"
    using a assms by (simp add: get_replica_count_def)
next
  fix pre name c post
  assume a: "dict_get_default d ''services'' (JObj []) = JObj (pre @ (name, JObj c) # post)
             \<and> list_all (\<lambda>s. declares_replicas (snd s)) pre
             \<and> not_a_number (dict_get_default c ''replicas'' (JInt 1))"
  then have "sum_replicas float_add (NInt 0) (pre @ (name, JObj c) # post)
      = sum_replicas float_add (NInt (0 + sum_list (map (\<lambda>s. replicas_of (snd s)) pre)))
          ((name, JObj c) # post)"
    using sum_replicas_typed[of pre float_add 0 "(name, JObj c) # post"] by blast
  moreover from a have "py_add float_add (NInt (0 + sum_list (map (\<lambda>s. replicas_of (snd s)) pre)))
      (dict_get_default c ''replicas'' (JInt 1)) = Inl TypeError"
    using py_add_not_a_number by blast
  ultimately show "get_replica_count float_add deployment = Inl TypeError"
    using a assms by (simp add: get_replica_count_def)
next
  fix pre name v post
  assume a: "dict_get_default d ''services'' (JObj []) = JObj (pre @ (name, v) # post)
             \<and> list_all (\<lambda>s. declares_replicas (snd s)) pre
             \<and> (\<forall>c. v \<noteq> JObj c)"
  then have "sum_replicas float_add (NInt 0) (pre @ (name, v) # post)
      = sum_replicas float_add (NInt (0 + sum_list (map (\<lambda>s. replicas_of (snd s)) pre)))
          ((name, v) # post)"
    using sum_replicas_typed[of pre float_add 0 "(name, v) # post"] by blast
  moreover from a have "sum_replicas float_add acc ((name, v) # post) = Inl AttributeError" for acc
    by (cases v) simp_all
  ultimately show "get_replica_count float_add deployment = Inl AttributeError"
    using a assms by (simp add: get_replica_count_def)
next
  assume "\<forall>services. dict_get_default d ''services'' (JObj []) \<noteq> JObj services"
  then show "get_replica_count float_add deployment = Inl AttributeError"
    using assms by (cases "dict_get_default d ''services'' (JObj [])") (simp_all add: get_replica_count_def)
qed

text \<open>The services \<^verbatim>\<open>{web: {replicas: 3}, worker: {}}\<close> give 4 replicas.\<close>

theorem replica_count_is_sum_witness:
  "\<forall>float_add. get_replica_count float_add
     (JObj [(''id'', JStr ''d1''),
            (''services'', JObj [(''web'', JObj [(''replicas'', JInt 3)]), (''worker'', JObj [])])])
   = Inr (NInt 4)"
proof
  fix float_add
  let ?services = "[(''web'', JObj [(''replicas'', JInt 3)]), (''worker'', JObj [])]"
  let ?d = "[(''id'', JStr ''d1''), (''services'', JObj ?services)]"
  have g: "dict_get_default ?d ''services'' (JObj []) = JObj ?services
             \<and> list_all (\<lambda>s. declares_replicas (snd s)) ?services"
    by (simp add: dict_get_default_def declares_replicas_def)
  have s: "sum_list (map (\<lambda>s. replicas_of (snd s)) ?services) = 4"
    by (simp add: replicas_of_def)
  from replica_count_is_sum[OF refl, of ?d float_add, THEN conjunct1, THEN spec, of ?services] g
  have "get_replica_count float_add (JObj ?d)
          = Inr (NInt (sum_list (map (\<lambda>s. replicas_of (snd s)) ?services)))"
    by blast
  then show "get_replica_count float_add (JObj ?d) = Inr (NInt 4)"
    unfolding s .
qed

text \<open>
  C9 as stated fails: a service whose \<^verbatim>\<open>replicas\<close> is null gives no explicit count, yet
  it does not count for 1, the addition raises TypeError; and a descriptor whose
  \<^verbatim>\<open>services\<close> is null has no declared service, yet the count is not 0, the iteration
  raises AttributeError.
\<close>

theorem null_replicas_raises:
  "(\<forall>float_add. get_replica_count float_add
       (JObj [(''id'', JStr ''d1''),
              (''services'', JObj [(''web'', JObj [(''replicas'', JInt 3)]),
                                   (''worker'', JObj [(''replicas'', JNull)])])])
     = Inl TypeError)
   \<and> (\<forall>float_add. get_replica_count float_add
       (JObj [(''id'', JStr ''d1''), (''services'', JNull)]) = Inl AttributeError)"
  by (simp add: get_replica_count_def dict_get_default_def)

text \<open>
  C1: what the code does in the scenario. With \<^verbatim>\<open>max_actions_per_hour = 1\<close> and an
  empty ledger, \<^verbatim>\<open>_execute_action\<close> writes the pending record of the first scale action
  before it asks the guardrail, the hourly count then includes that record, and the
  first action is blocked, as is the second one a minute later; no action completes and
  no cooldown is applied.
\<close>

theorem limit_one_blocks_first_action:
  "(case execute_action (default_settings\<lparr>max_actions_per_hour := 1\<rparr>) Found 0 empty_db
           ''scale'' (Some ''d1'') [(''new_count'', JInt 2), (''reason'', JStr ''load'')] of
      Inl failure \<Rightarrow> False
    | Inr d1 \<Rightarrow>
        (case execute_action (default_settings\<lparr>max_actions_per_hour := 1\<rparr>) Found 60000000 d1
                ''scale'' (Some ''d1'') [(''new_count'', JInt 3), (''reason'', JStr ''load'')] of
           Inl failure \<Rightarrow> False
         | Inr d2 \<Rightarrow>
             map (\<lambda>r. (al_id r, al_status r, al_error r)) (action_ledger d2)
               = [(1, ''blocked'', Some ''Rate limit exceeded for scale''),
                  (2, ''blocked'', Some ''Rate limit exceeded for scale'')]
             \<and> cooldowns d2 = []))"
  by code_simp

end
